theory Spec2Isabelle
  imports Complex_Main
begin

section \<open>Conventions of the embedding\<close>

text \<open>
  The kill calculator is pure Python over dictionaries, lists, strings and floats.
  \<^item> A Python \<open>float\<close> is a \<^typ>\<open>real\<close>: arithmetic is exact, so rounding
    error, overflow, infinities and NaN of IEEE doubles are outside the model.
  \<^item> A Python \<open>int\<close> is an \<^typ>\<open>int\<close>.
  \<^item> A \<open>str\<close> is a \<^typ>\<open>string\<close> of bytes (UTF-8 for the few non-ASCII
    characters of the tables); \<open>lower()\<close> acts on the letters A to Z only.
  \<^item> A dictionary used as a table is an association list looked up with
    \<^const>\<open>map_of\<close>; a dictionary used as a structure is a record whose optional
    keys are \<open>option\<close> fields (\<open>d.get(k, v)\<close> is the \<open>None\<close> case).
  \<^item> An exception is the \<open>Inl\<close> summand of a result.
  \<^item> A key that several dictionaries share gets a prefix, since record fields are
    global names: \<open>ms_\<close> for \<open>my_state\<close>, \<open>en_\<close> for the target, \<open>item_\<close> for an
    item entry, \<open>lv_\<close> for the stats at a level, \<open>r_\<close> and \<open>ev_\<close> where a result field
    or a local variable is named like another field.
\<close>

datatype error = KeyError | IndexError

section \<open>Name normalisation\<close>

definition lower_char :: "char \<Rightarrow> char" where
  "lower_char c =
     (case map_of (zip ''ABCDEFGHIJKLMNOPQRSTUVWXYZ'' ''abcdefghijklmnopqrstuvwxyz'') c of
        Some d \<Rightarrow> d
      | None \<Rightarrow> c)"

definition lower :: "string \<Rightarrow> string" where
  "lower s = map lower_char s"

text \<open>\<open>s.replace(a, "")\<close> and \<open>s.replace(a, b)\<close> for one-character \<open>a\<close>, \<open>b\<close>.\<close>

definition remove_char :: "char \<Rightarrow> string \<Rightarrow> string" where
  "remove_char a s = filter (\<lambda>c. c \<noteq> a) s"

definition replace_char :: "char \<Rightarrow> char \<Rightarrow> string \<Rightarrow> string" where
  "replace_char a b s = map (\<lambda>c. if c = a then b else c) s"

definition apostrophe :: char where
  "apostrophe = CHR 0x27"

text \<open>The key used by \<open>get_champion_stats\<close> and by \<open>get_combo\<close>.\<close>

definition champion_key :: "string \<Rightarrow> string" where
  "champion_key champion_name =
     remove_char CHR ''.'' (remove_char CHR '' '' (remove_char apostrophe (lower champion_name)))"

section \<open>Champion base stats (data/champion\_stats.py)\<close>

record champion_stats =
  base_armor :: real
  armor_per_level :: real
  base_mr :: real
  mr_per_level :: real
  base_hp :: real
  hp_per_level :: real

definition mk_stats :: "real \<Rightarrow> real \<Rightarrow> real \<Rightarrow> real \<Rightarrow> real \<Rightarrow> real \<Rightarrow> champion_stats" where
  "mk_stats a apl m mpl h hpl =
     \<lparr>base_armor = a, armor_per_level = apl, base_mr = m, mr_per_level = mpl,
      base_hp = h, hp_per_level = hpl\<rparr>"

definition CHAMPION_STATS :: "(string \<times> champion_stats) list" where
  "CHAMPION_STATS =
    [(''belveth'',      mk_stats 21 4.7 32 2.05 640 105),
     (''khazix'',       mk_stats 21 4.2 32 2.05 585 100),
     (''jarvaniv'',     mk_stats 36 4.6 32 2.05 592 100),
     (''vi'',           mk_stats 33 4.7 32 2.05 613 95),
     (''nocturne'',     mk_stats 33 4.2 32 2.05 582 85),
     (''warwick'',      mk_stats 33 4.7 32 2.05 653 99),
     (''masteryi'',     mk_stats 33 3.5 32 1.25 654 99),
     (''ekko'',         mk_stats 24 4.2 32 2.05 655 109),
     (''elise'',        mk_stats 24 4.0 32 1.25 553 92),
     (''briar'',        mk_stats 26 4.7 32 2.05 645 114),
     (''graves'',       mk_stats 30 4.0 32 2.05 570 95),
     (''xinzhao'',      mk_stats 33 4.2 32 2.05 600 100),
     (''reksai'',       mk_stats 36 4.7 32 2.05 575 85),
     (''fiddlesticks'', mk_stats 21 4.0 40 2.05 580 102),
     (''shaco'',        mk_stats 21 3.5 32 1.25 560 90),
     (''viego'',        mk_stats 33 4.7 32 2.05 600 100),
     (''hecarim'',      mk_stats 31 4.7 32 2.05 593 93),
     (''darius'',       mk_stats 39 4.0 32 2.05 650 114),
     (''kayle'',        mk_stats 26 4.0 32 1.25 610 103),
     (''veigar'',       mk_stats 18 4.0 30 0.5 550 104),
     (''lucian'',       mk_stats 28 4.7 30 0.5 600 95),
     (''nautilus'',     mk_stats 46 4.7 32 2.05 648 109),
     (''malzahar'',     mk_stats 19 4.0 30 0.5 580 95),
     (''aphelios'',     mk_stats 21 4.2 30 0.5 530 92),
     (''_default'',     mk_stats 28 4.0 32 1.5 580 95)]"

text \<open>
  \<open>CHAMPION_STATS.get(key, CHAMPION_STATS["_default"])\<close>: the default argument is
  evaluated first, and its subscript is the one place that could raise.
\<close>

definition get_champion_stats :: "string \<Rightarrow> error + champion_stats" where
  "get_champion_stats champion_name =
     (let key = champion_key champion_name in
      case map_of CHAMPION_STATS ''_default'' of
        None \<Rightarrow> Inl KeyError
      | Some dflt \<Rightarrow>
          Inr (case map_of CHAMPION_STATS key of Some s \<Rightarrow> s | None \<Rightarrow> dflt))"

text \<open>The dictionary \<open>{"armor", "mr", "max_hp"}\<close> returned by \<open>calculate_stats_at_level\<close>.\<close>

record level_stats =
  lv_armor :: real
  lv_mr :: real
  lv_max_hp :: real

definition calculate_stats_at_level :: "string \<Rightarrow> int \<Rightarrow> error + level_stats" where
  "calculate_stats_at_level champion_name level =
     (case get_champion_stats champion_name of
        Inl e \<Rightarrow> Inl e
      | Inr stats \<Rightarrow>
          (let lvl = max 1 (min 18 level) in
           Inr \<lparr>lv_armor = base_armor stats + armor_per_level stats * of_int (lvl - 1),
                lv_mr = base_mr stats + mr_per_level stats * of_int (lvl - 1),
                lv_max_hp = base_hp stats + hp_per_level stats * of_int (lvl - 1)\<rparr>))"

section \<open>Item tables (data/item\_stats.py)\<close>

text \<open>A value that is a number in some entries and a string in others.\<close>

datatype shield_val = Num real | Str string

text \<open>
  An entry of \<open>ITEM_STATS\<close>; every key is optional. \<open>no_item\<close> is the empty
  dictionary \<open>{}\<close> that \<open>ITEM_STATS.get(key, {})\<close> returns for an unknown key.
\<close>

record item_stats =
  item_armor :: "real option"
  item_mr :: "real option"
  item_hp :: "real option"
  passive_shield :: "shield_val option"
  active_shield :: "real option"
  revive :: "bool option"
  damage_delay :: "real option"

definition no_item :: item_stats where
  "no_item = \<lparr>item_armor = None, item_mr = None, item_hp = None, passive_shield = None,
              active_shield = None, revive = None, damage_delay = None\<rparr>"

definition ITEM_STATS :: "(string \<times> item_stats) list" where
  "ITEM_STATS =
    [(''thornmail'',           no_item\<lparr>item_armor := Some 60, item_hp := Some 350\<rparr>),
     (''randuins_omen'',       no_item\<lparr>item_armor := Some 80, item_hp := Some 400\<rparr>),
     (''frozen_heart'',        no_item\<lparr>item_armor := Some 90, item_hp := Some 0\<rparr>),
     (''iceborn_gauntlet'',    no_item\<lparr>item_armor := Some 50, item_hp := Some 300\<rparr>),
     (''jak_sho'',             no_item\<lparr>item_armor := Some 30, item_hp := Some 300, item_mr := Some 30\<rparr>),
     (''kaenic_rookern'',      no_item\<lparr>item_mr := Some 80, item_hp := Some 350\<rparr>),
     (''spirit_visage'',       no_item\<lparr>item_mr := Some 60, item_hp := Some 450\<rparr>),
     (''force_of_nature'',     no_item\<lparr>item_mr := Some 70, item_hp := Some 350\<rparr>),
     (''warmogs_armor'',       no_item\<lparr>item_hp := Some 1000\<rparr>),
     (''heartsteel'',          no_item\<lparr>item_hp := Some 800, item_armor := Some 0\<rparr>),
     (''gargoyle_stoneplate'', no_item\<lparr>item_armor := Some 60, item_mr := Some 60, item_hp := Some 150,
                                       active_shield := Some 0.40\<rparr>),
     (''sterak_gage'',         no_item\<lparr>item_hp := Some 400, passive_shield := Some (Num 0.20)\<rparr>),
     (''immortal_shieldbow'',  no_item\<lparr>item_hp := Some 250, passive_shield := Some (Num 275)\<rparr>),
     (''guardian_angel'',      no_item\<lparr>item_armor := Some 40, revive := Some True\<rparr>),
     (''deaths_dance'',        no_item\<lparr>item_armor := Some 45, item_hp := Some 0,
                                       damage_delay := Some 0.30\<rparr>),
     (''black_cleaver'',       no_item\<lparr>item_hp := Some 400, item_armor := Some 0\<rparr>),
     (''sundered_sky'',        no_item\<lparr>item_hp := Some 350, item_armor := Some 0\<rparr>),
     (''titanic_hydra'',       no_item\<lparr>item_hp := Some 600, item_armor := Some 0\<rparr>),
     (''maw_of_malmortius'',   no_item\<lparr>item_mr := Some 50, passive_shield := Some (Num 200)\<rparr>),
     (''edge_of_night'',       no_item\<lparr>item_hp := Some 250, item_armor := Some 0,
                                       passive_shield := Some (Str ''spell'')\<rparr>),
     (''hollow_radiance'',     no_item\<lparr>item_hp := Some 350, item_mr := Some 50\<rparr>),
     (''abyssal_mask'',        no_item\<lparr>item_hp := Some 500, item_mr := Some 0\<rparr>),
     (''blade_of_the_ruined_king'', no_item\<lparr>item_hp := Some 0\<rparr>),
     (''trinity_force'',       no_item\<lparr>item_hp := Some 200\<rparr>),
     (''stridebreaker'',       no_item\<lparr>item_hp := Some 300\<rparr>),
     (''ravenous_hydra'',      no_item\<lparr>item_hp := Some 0\<rparr>),
     (''profane_hydra'',       no_item\<lparr>item_hp := Some 0\<rparr>),
     (''serpents_fang'',       no_item\<lparr>item_hp := Some 0\<rparr>),
     (''lord_dominiks_regards'', no_item\<lparr>item_hp := Some 0\<rparr>),
     (''mortal_reminder'',     no_item\<lparr>item_hp := Some 0\<rparr>),
     (''the_collector'',       no_item\<lparr>item_hp := Some 0\<rparr>),
     (''infinity_edge'',       no_item\<lparr>item_hp := Some 0\<rparr>),
     (''kraken_slayer'',       no_item\<lparr>item_hp := Some 0\<rparr>)]"

text \<open>
  \<open>_normalize_item_key\<close> of the calculator; \<open>get_item_stats\<close> normalises the same
  way.
\<close>

definition normalize_item_key :: "string \<Rightarrow> string" where
  "normalize_item_key name =
     replace_char CHR ''-'' CHR ''_''
       (replace_char CHR '' '' CHR ''_'' (remove_char apostrophe (lower name)))"

definition get_item_stats :: "string \<Rightarrow> item_stats" where
  "get_item_stats item_name =
     (case map_of ITEM_STATS (normalize_item_key item_name) of
        Some s \<Rightarrow> s
      | None \<Rightarrow> no_item)"

text \<open>\<open>stats.get(k, 0)\<close> for a numeric key.\<close>

definition get0 :: "real option \<Rightarrow> real" where
  "get0 v = (case v of Some x \<Rightarrow> x | None \<Rightarrow> 0)"

text \<open>An entry of \<open>ACTIVE_DAMAGE_ITEMS\<close>: all three keys are always present.\<close>

record active_item =
  damage :: real
  dmg_kind :: string
  item_note :: string

definition ACTIVE_DAMAGE_ITEMS :: "(string \<times> active_item) list" where
  "ACTIVE_DAMAGE_ITEMS =
    [(''galeforce'',          \<lparr>damage = 150, dmg_kind = ''physical'', item_note = ''dash + damage''\<rparr>),
     (''hextech_rocketbelt'', \<lparr>damage = 125, dmg_kind = ''magic'', item_note = ''dash''\<rparr>),
     (''youmuus_ghostblade'', \<lparr>damage = 0, dmg_kind = ''none'', item_note = ''+MS only''\<rparr>),
     (''the_collector'',      \<lparr>damage = 0, dmg_kind = ''execute'',
                               item_note = ''executes below 5% HP - flag only''\<rparr>)]"

text \<open>\<open>get_active_damage\<close>: here hyphens are kept. \<open>None\<close> is the empty dictionary.\<close>

definition get_active_damage :: "string \<Rightarrow> active_item option" where
  "get_active_damage item_name =
     map_of ACTIVE_DAMAGE_ITEMS
       (replace_char CHR '' '' CHR ''_'' (remove_char apostrophe (lower item_name)))"

text \<open>An entry of \<open>SUMMONER_ADJUSTMENTS\<close>.\<close>

record summoner_adj =
  hp_modifier :: "real option"
  my_dmg_modifier :: "real option"
  adj_label :: string

definition SUMMONER_ADJUSTMENTS :: "(string \<times> summoner_adj) list" where
  "SUMMONER_ADJUSTMENTS =
    [(''SummonerBarrier'', \<lparr>hp_modifier = Some 1.25, my_dmg_modifier = None, adj_label = ''Barrier''\<rparr>),
     (''SummonerHeal'',    \<lparr>hp_modifier = Some 1.18, my_dmg_modifier = None, adj_label = ''Heal''\<rparr>),
     (''SummonerShield'',  \<lparr>hp_modifier = Some 1.15, my_dmg_modifier = None,
                            adj_label = ''Ignite(no adj)''\<rparr>),
     (''SummonerExhaust'', \<lparr>hp_modifier = None, my_dmg_modifier = Some 0.60, adj_label = ''Exhaust''\<rparr>)]"

section \<open>Combo table (data/champion\_combos.py)\<close>

text \<open>
  A damage component. \<open>label\<close>, \<open>base\<close> and \<open>type\<close> are read by subscript; the
  ratios and \<open>rank_index\<close> by \<open>get\<close>, so they are optional. \<open>rank_index = None\<close>
  stands for a missing key as well as for the value \<open>None\<close>.
\<close>

record component =
  label :: string
  base :: "real list"
  ad_ratio :: "real option"
  ap_ratio :: "real option"
  hp_ratio :: "real option"
  dmg_type :: string
  rank_index :: "string option"

record combo =
  combo_label :: string
  spell_order :: string
  damage_components :: "component list"

definition mk_component :: "string \<Rightarrow> real list \<Rightarrow> real \<Rightarrow> string \<Rightarrow> string option \<Rightarrow> component" where
  "mk_component l b ad t r =
     \<lparr>label = l, base = b, ad_ratio = Some ad, ap_ratio = None, hp_ratio = None,
      dmg_type = t, rank_index = r\<rparr>"

text \<open>The right arrow of the combo labels, in UTF-8.\<close>

definition arrow :: string where
  "arrow = [CHR 0xE2, CHR 0x86, CHR 0x92]"

definition CHAMPION_COMBOS :: "(string \<times> combo) list" where
  "CHAMPION_COMBOS =
    [(''khazix'',
      \<lparr>combo_label = ''E '' @ arrow @ '' Q (isolated) '' @ arrow @ '' W '' @ arrow @ '' AA'',
       spell_order = ''E > Q > W > AA'',
       damage_components =
         [mk_component ''Q isolated'' [70, 95, 120, 145, 170] 1.15 ''physical'' (Some ''q''),
          mk_component ''W spike'' [85, 115, 145, 175, 205] 1.0 ''physical'' (Some ''w''),
          mk_component ''E leap'' [65, 100, 135, 170, 205] 0.2 ''physical'' (Some ''e''),
          mk_component ''AA'' [0] 1.0 ''physical'' None]\<rparr>),
     (''jarvaniv'',
      \<lparr>combo_label = ''E+Q '' @ arrow @ '' W '' @ arrow @ '' AA '' @ arrow @ '' R'',
       spell_order = ''E+Q > W > AA > R (to trap)'',
       damage_components =
         [mk_component ''Q knockup'' [80, 130, 180, 230, 280] 1.4 ''physical'' (Some ''q''),
          mk_component ''R Cataclysm'' [150, 250, 350] 1.5 ''physical'' (Some ''r''),
          mk_component ''AA'' [0] 1.0 ''physical'' None]\<rparr>),
     (''briar'',
      \<lparr>combo_label = ''Q '' @ arrow @ '' W (frenzy) '' @ arrow @ '' E '' @ arrow @ '' W recast'',
       spell_order = ''Q > W > E (charged) > W recast'',
       damage_components =
         [mk_component ''Q stun'' [60, 85, 110, 135, 160] 0.8 ''physical'' (Some ''q''),
          mk_component ''W autos x3'' [0] 3.0 ''physical'' None,
          mk_component ''E max charge'' [140, 215, 290, 365, 440] 2.4 ''magic'' (Some ''e'')]\<rparr>),
     (''warwick'',
      \<lparr>combo_label = ''Q '' @ arrow @ '' R (suppress) '' @ arrow @ '' autos'',
       spell_order = ''R > Q > autos'',
       damage_components =
         [(mk_component ''Q bite'' [0] 0 ''magic'' (Some ''q''))\<lparr>hp_ratio := Some 0.06\<rparr>,
          mk_component ''R suppress'' [175, 350, 525] 2.5 ''magic'' (Some ''r''),
          mk_component ''autos x3'' [0] 3.0 ''physical'' None]\<rparr>),
     (''nocturne'',
      \<lparr>combo_label = ''R '' @ arrow @ '' AA '' @ arrow @ '' Q '' @ arrow @ '' E (fear) '' @ arrow @ '' AA'',
       spell_order = ''R > AA > Q > E > AA'',
       damage_components =
         [mk_component ''Q'' [65, 110, 155, 200, 245] 0.85 ''physical'' (Some ''q''),
          mk_component ''Passive proc'' [0] 1.2 ''physical'' None,
          mk_component ''AAs x2'' [0] 2.0 ''physical'' None]\<rparr>),
     (''masteryi'',
      \<lparr>combo_label = ''Q (4 strikes) '' @ arrow @ '' autos '' @ arrow @ '' E (true dmg)'',
       spell_order = ''Q > E > autos'',
       damage_components =
         [mk_component ''Q Alpha x4'' [25, 60, 95, 130, 165] (4 * 0.9) ''physical'' (Some ''q''),
          mk_component ''E true dmg x3'' [0] (3 * 0.1) ''true'' None,
          mk_component ''AAs x3'' [0] 3.0 ''physical'' None]\<rparr>),
     (''vi'',
      \<lparr>combo_label = ''Q '' @ arrow @ '' AA '' @ arrow @ '' W procs '' @ arrow @ '' R '' @ arrow @ '' AA'',
       spell_order = ''Q > AA > R > AA'',
       damage_components =
         [mk_component ''Q max charge'' [55, 80, 105, 130, 155] 1.7 ''physical'' (Some ''q''),
          mk_component ''R'' [150, 325, 500] 1.4 ''physical'' (Some ''r''),
          mk_component ''AAs+W x2'' [0] 2.0 ''physical'' None]\<rparr>),
     (''_default'',
      \<lparr>combo_label = ''Full combo'',
       spell_order = ''Spell1 > Spell2 > AA'',
       damage_components =
         [mk_component ''Estimated combo'' [300] 2.5 ''physical'' None]\<rparr>)]"

definition get_combo :: "string \<Rightarrow> error + combo" where
  "get_combo champion_name =
     (let key = champion_key champion_name in
      case map_of CHAMPION_COMBOS ''_default'' of
        None \<Rightarrow> Inl KeyError
      | Some dflt \<Rightarrow>
          Inr (case map_of CHAMPION_COMBOS key of Some c \<Rightarrow> c | None \<Rightarrow> dflt))"

text \<open>
  Python list subscript: a negative index counts from the end, and an index outside
  the list raises \<open>IndexError\<close>.
\<close>

definition py_index :: "'a list \<Rightarrow> int \<Rightarrow> error + 'a" where
  "py_index xs i =
     (let n = int (length xs); j = (if i < 0 then i + n else i) in
      if 0 \<le> j \<and> j < n then Inr (xs ! nat j) else Inl IndexError)"

text \<open>
  The index computed on the path with a rank source: \<open>min(rank - 1, len(base_list) - 1)\<close>,
  where \<open>rank = spell_ranks.get(idx_key, 1)\<close>.
\<close>

definition rank_idx :: "component \<Rightarrow> (string \<rightharpoonup> int) \<Rightarrow> string \<Rightarrow> int" where
  "rank_idx cmp spell_ranks idx_key =
     (let rank = (case spell_ranks idx_key of Some r \<Rightarrow> r | None \<Rightarrow> 1) in
      min (rank - 1) (int (length (base cmp)) - 1))"

definition get_base_damage_at_rank :: "component \<Rightarrow> (string \<rightharpoonup> int) \<Rightarrow> error + real" where
  "get_base_damage_at_rank cmp spell_ranks =
     (case rank_index cmp of
        None \<Rightarrow> (if base cmp \<noteq> [] then py_index (base cmp) 0 else Inr 0)
      | Some idx_key \<Rightarrow> py_index (base cmp) (rank_idx cmp spell_ranks idx_key))"

section \<open>The calculator's inputs and result (modules/kill\_calculator.py)\<close>

text \<open>
  \<open>my_state\<close>, as built by \<open>live_client.get_my_state\<close>; the calculator reads every
  key with \<open>get\<close> and a default, so every field is optional.
\<close>

record my_state =
  ms_champion :: "string option"
  ms_level :: "int option"
  ms_total_ad :: "real option"
  ms_ap :: "real option"
  ms_lethality :: "real option"
  ms_armor_pen_pct :: "real option"
  ms_magic_pen_flat :: "real option"
  ms_hp_percent :: "real option"
  ms_spell_ranks :: "(string \<rightharpoonup> int) option"
  ms_items :: "string list option"

text \<open>
  The target dictionary. \<open>en_hp_percent = None\<close> stands for a missing key and for the
  value \<open>None\<close> that \<open>get_enemies_state\<close> stores: both end as full health.
  \<open>en_hp_max_real = None\<close> likewise stands for a missing key or \<open>None\<close>.
\<close>

record enemy =
  en_champion :: "string option"
  en_level :: "int option"
  en_items :: "string list option"
  en_hp_max_real :: "real option"
  en_hp_percent :: "real option"
  en_is_dead :: "bool option"
  en_summoners :: "string list option"

text \<open>The dictionary returned by \<open>_build_enemy_stats\<close>.\<close>

record enemy_stats =
  armor :: real
  mr :: real
  max_hp :: real
  current_hp :: real
  hp_percent :: real
  item_shields :: "(string \<times> shield_val) list"
  item_revive :: bool
  death_dance_flag :: bool

text \<open>
  Formatted messages are kept as structured values carrying what the format string
  interpolates; the text of a float (\<open>:.0f\<close>, \<open>:.0%\<close>, \<open>repr\<close>) is not modelled.
  \<^item> \<open>pause_reason\<close>: \<open>NotPaused\<close> is the empty string, \<open>PreGame\<close> is
    \<open>"Pre-game (< 10s)"\<close>, \<open>HpTooLow h\<close> is \<open>"Your HP too low (h)"\<close>, \<open>EnemyDead\<close> is
    \<open>"Enemy is dead"\<close>, \<open>LateGame\<close> is \<open>"Late game (>45min) ..."\<close>.
  \<^item> \<open>item_flag\<close>: \<open>FlatShieldFlag n v\<close> is \<open>"n: +v shield"\<close>, \<open>TextShieldFlag n t\<close>
    is \<open>"n: t shield"\<close>, then the Death's Dance and Guardian Angel messages, and
    \<open>CooldownFlag m\<close> for an entry \<open>m\<close> of \<open>ITEM_CD_FLAGS\<close>.
  \<^item> \<open>summoner_warning\<close>: \<open>HpModWarning l x\<close> is \<open>"l: xX effective HP"\<close>,
    \<open>DmgModWarning l x\<close> is \<open>"l: your dmg xX"\<close>.
\<close>

datatype pause_reason = NotPaused | PreGame | HpTooLow real | EnemyDead | LateGame

datatype item_flag =
    FlatShieldFlag string real
  | TextShieldFlag string string
  | DeathsDanceFlag
  | ReviveFlag
  | CooldownFlag string

datatype summoner_warning = HpModWarning string real | DmgModWarning string real

text \<open>
  \<open>KillCalcResult\<close>. \<open>active_items_used\<close> holds the pairs \<open>(item_name, d)\<close> that the
  source formats and appends to \<open>combo_label\<close>.
\<close>

record KillCalcResult =
  enemy_champion :: string
  my_champion :: string
  raw_damage :: real
  real_damage :: real
  active_item_damage :: real
  enemy_current_hp :: real
  enemy_max_hp :: real
  enemy_hp_percent :: real
  enemy_effective_hp :: real
  enemy_armor_used :: real
  enemy_mr_used :: real
  kill_ratio :: real
  confidence :: real
  verdict :: string
  r_combo_label :: string
  r_spell_order :: string
  active_items_used :: "(string \<times> real) list"
  flags :: "string list"
  summoner_warnings :: "summoner_warning list"
  item_flags :: "item_flag list"
  paused :: bool
  pause_reason :: pause_reason

text \<open>The dataclass defaults.\<close>

definition new_result :: "string \<Rightarrow> string \<Rightarrow> KillCalcResult" where
  "new_result ec mc =
     \<lparr>enemy_champion = ec, my_champion = mc, raw_damage = 0, real_damage = 0,
      active_item_damage = 0, enemy_current_hp = 0, enemy_max_hp = 0, enemy_hp_percent = 1,
      enemy_effective_hp = 0, enemy_armor_used = 0, enemy_mr_used = 0, kill_ratio = 0,
      confidence = 0, verdict = ''NO GO'', r_combo_label = [], r_spell_order = [],
      active_items_used = [], flags = [], summoner_warnings = [], item_flags = [],
      paused = False, pause_reason = NotPaused\<rparr>"

definition THRESHOLD_GO :: real where "THRESHOLD_GO = 0.80"
definition THRESHOLD_RISKY :: real where "THRESHOLD_RISKY = 0.60"
definition MIN_MY_HP_TO_ENGAGE :: real where "MIN_MY_HP_TO_ENGAGE = 0.35"

section \<open>Numbers to text, rounding\<close>

text \<open>\<open>int(x)\<close> truncates towards zero; \<open>str\<close> of an integer is its decimal text.\<close>

definition py_int :: "real \<Rightarrow> int" where
  "py_int x = (if 0 \<le> x then \<lfloor>x\<rfloor> else \<lceil>x\<rceil>)"

fun show_nat :: "nat \<Rightarrow> string" where
  "show_nat n =
     (if n < 10 then [''0123456789'' ! n]
      else show_nat (n div 10) @ [''0123456789'' ! (n mod 10)])"

declare show_nat.simps [simp del]

definition show_int :: "int \<Rightarrow> string" where
  "show_int i = (if i < 0 then ''-'' @ show_nat (nat (- i)) else show_nat (nat i))"

text \<open>\<open>round(x, n)\<close>: to the nearest multiple of \<open>10^-n\<close>, a tie going to the even one.\<close>

definition round_half_even :: "real \<Rightarrow> int" where
  "round_half_even x =
     (let f = \<lfloor>x\<rfloor>; d = x - of_int f in
      if d < 1/2 then f
      else if 1/2 < d then f + 1
      else if even f then f else f + 1)"

definition py_round :: "real \<Rightarrow> nat \<Rightarrow> real" where
  "py_round x n = of_int (round_half_even (x * 10 ^ n)) / 10 ^ n"

section \<open>Resistances\<close>

text \<open>
  The leading underscore of \<open>_calc_effective_armor\<close>, \<open>_dmg_reduction\<close>,
  \<open>_mr_reduction\<close>, \<open>_build_enemy_stats\<close> and \<open>_calculate_combo_damage\<close> is dropped.
\<close>

definition calc_effective_armor :: "real \<Rightarrow> my_state \<Rightarrow> real" where
  "calc_effective_armor b_armor my =
     (let lethality = get0 (ms_lethality my);
          pen_pct = get0 (ms_armor_pen_pct my);
          level = (case ms_level my of Some l \<Rightarrow> l | None \<Rightarrow> 1);
          flat_pen = lethality * (0.6 + 0.4 * of_int level / 18);
          armor_after_pct = b_armor * (1 - pen_pct);
          armor_after_flat = max 0 (armor_after_pct - flat_pen)
      in armor_after_flat)"

definition dmg_reduction :: "real \<Rightarrow> real" where
  "dmg_reduction effective_armor =
     (if effective_armor \<ge> 0 then 100 / (100 + effective_armor)
      else 2 - 100 / (100 - effective_armor))"

definition mr_reduction :: "real \<Rightarrow> real" where
  "mr_reduction effective_mr = 100 / (100 + max 0 effective_mr)"

section \<open>Target stats\<close>

text \<open>The local variables that the loop over the held items updates.\<close>

record item_acc =
  acc_armor :: real
  acc_mr :: real
  acc_max_hp :: real
  acc_shields :: "(string \<times> shield_val) list"
  acc_revive :: bool
  acc_death_dance :: bool

text \<open>Truthiness of a \<open>passive_shield\<close> value: a non-zero number or a non-empty string.\<close>

fun truthy :: "shield_val \<Rightarrow> bool" where
  "truthy (Num x) = (x \<noteq> 0)"
| "truthy (Str t) = (t \<noteq> [])"

definition item_step :: "item_acc \<Rightarrow> string \<Rightarrow> item_acc" where
  "item_step a item_name =
     (let key = normalize_item_key item_name;
          stats = (case map_of ITEM_STATS key of Some s \<Rightarrow> s | None \<Rightarrow> no_item);
          passive = (case passive_shield stats of
                       Some v \<Rightarrow> if truthy v then [(item_name, v)] else []
                     | None \<Rightarrow> []);
          active = (case active_shield stats of
                      Some x \<Rightarrow>
                        if x \<noteq> 0
                        then [(item_name, Str (''+'' @ show_int (py_int (x * 100)) @ ''% maxHP''))]
                        else []
                    | None \<Rightarrow> [])
      in \<lparr>acc_armor = acc_armor a + get0 (item_armor stats),
          acc_mr = acc_mr a + get0 (item_mr stats),
          acc_max_hp = acc_max_hp a + get0 (item_hp stats),
          acc_shields = acc_shields a @ passive @ active,
          acc_revive = (if revive stats = Some True then True else acc_revive a),
          acc_death_dance = (if key = ''deaths_dance'' then True else acc_death_dance a)\<rparr>)"

fun items_loop :: "item_acc \<Rightarrow> string list \<Rightarrow> item_acc" where
  "items_loop a [] = a"
| "items_loop a (item_name # rest) = items_loop (item_step a item_name) rest"

definition build_enemy_stats :: "enemy \<Rightarrow> real option \<Rightarrow> error + enemy_stats" where
  "build_enemy_stats en hp_percent_override =
     (let champ = (case en_champion en of Some c \<Rightarrow> c | None \<Rightarrow> ''_default'');
          level = (case en_level en of Some l \<Rightarrow> l | None \<Rightarrow> 1);
          items = (case en_items en of Some xs \<Rightarrow> xs | None \<Rightarrow> [])
      in case calculate_stats_at_level champ level of
           Inl e \<Rightarrow> Inl e
         | Inr bs \<Rightarrow>
             (let max_hp0 = (case en_hp_max_real en of
                               Some h \<Rightarrow> if h \<noteq> 0 then h else lv_max_hp bs
                             | None \<Rightarrow> lv_max_hp bs);
                  a = items_loop
                        \<lparr>acc_armor = lv_armor bs, acc_mr = lv_mr bs, acc_max_hp = max_hp0,
                         acc_shields = [], acc_revive = False, acc_death_dance = False\<rparr>
                        items;
                  hp_pct0 = (case hp_percent_override of
                               Some v \<Rightarrow> Some v
                             | None \<Rightarrow> en_hp_percent en);
                  hp_pct = (case hp_pct0 of
                              None \<Rightarrow> 1
                            | Some v \<Rightarrow> if v = 0 \<or> v \<le> 0 \<or> v > 1 then 1 else v)
              in Inr \<lparr>armor = acc_armor a, mr = acc_mr a, max_hp = acc_max_hp a,
                      current_hp = acc_max_hp a * hp_pct, hp_percent = hp_pct,
                      item_shields = acc_shields a, item_revive = acc_revive a,
                      death_dance_flag = acc_death_dance a\<rparr>))"

section \<open>Combo damage\<close>

text \<open>A breakdown entry: label, damage rounded to one decimal, damage type.\<close>

type_synonym breakdown = "string \<times> real \<times> string"

text \<open>
  One pass of the loop over the damage components; \<open>acc\<close> is
  \<open>(phys_dmg, magic_dmg, breakdown)\<close>.
\<close>

definition component_step ::
  "real \<Rightarrow> real \<Rightarrow> real \<Rightarrow> (string \<rightharpoonup> int) \<Rightarrow> real \<times> real \<times> breakdown list \<Rightarrow> component
    \<Rightarrow> error + real \<times> real \<times> breakdown list" where
  "component_step total_ad ap max_hp_enemy spell_ranks acc cmp =
     (case acc of (phys_dmg, magic_dmg, bd) \<Rightarrow>
      (case get_base_damage_at_rank cmp spell_ranks of
         Inl e \<Rightarrow> Inl e
       | Inr b \<Rightarrow>
           (let ad_r = get0 (ad_ratio cmp);
                ap_r = get0 (ap_ratio cmp);
                hp_r = get0 (hp_ratio cmp);
                raw = b + (total_ad * ad_r) + (ap * ap_r) + (max_hp_enemy * hp_r);
                bd' = bd @ [(label cmp, py_round raw 1, dmg_type cmp)]
            in if dmg_type cmp = ''physical'' \<or> dmg_type cmp = ''true''
               then Inr (phys_dmg + raw, magic_dmg, bd')
               else Inr (phys_dmg, magic_dmg + raw, bd'))))"

fun components_loop ::
  "real \<Rightarrow> real \<Rightarrow> real \<Rightarrow> (string \<rightharpoonup> int) \<Rightarrow> real \<times> real \<times> breakdown list \<Rightarrow> component list
    \<Rightarrow> error + real \<times> real \<times> breakdown list" where
  "components_loop total_ad ap max_hp_enemy spell_ranks acc [] = Inr acc"
| "components_loop total_ad ap max_hp_enemy spell_ranks acc (cmp # rest) =
     (case component_step total_ad ap max_hp_enemy spell_ranks acc cmp of
        Inl e \<Rightarrow> Inl e
      | Inr acc' \<Rightarrow> components_loop total_ad ap max_hp_enemy spell_ranks acc' rest)"

definition calculate_combo_damage ::
  "my_state \<Rightarrow> enemy_stats \<Rightarrow> (string \<rightharpoonup> int) \<Rightarrow> error + real \<times> real \<times> breakdown list" where
  "calculate_combo_damage my es spell_ranks =
     (let champ = (case ms_champion my of Some c \<Rightarrow> c | None \<Rightarrow> ''_default'') in
      case get_combo champ of
        Inl e \<Rightarrow> Inl e
      | Inr cb \<Rightarrow>
          (let total_ad = (case ms_total_ad my of Some v \<Rightarrow> v | None \<Rightarrow> 50);
               ap = get0 (ms_ap my);
               max_hp_enemy = max_hp es
           in components_loop total_ad ap max_hp_enemy spell_ranks (0, 0, [])
                (damage_components cb)))"

section \<open>The main calculator\<close>

subsection \<open>Active damage items of the attacker\<close>

text \<open>\<open>acc\<close> is \<open>(active_dmg, active_items_used)\<close>.\<close>

definition active_step ::
  "real \<Rightarrow> real \<times> (string \<times> real) list \<Rightarrow> string \<Rightarrow> real \<times> (string \<times> real) list" where
  "active_step eff_armor acc item_name =
     (case acc of (active_dmg, used) \<Rightarrow>
      (case get_active_damage item_name of
         None \<Rightarrow> acc
       | Some act \<Rightarrow>
           if damage act > 0
           then (let d = (if dmg_kind act = ''physical''
                          then damage act * dmg_reduction eff_armor
                          else damage act)
                 in (active_dmg + d, used @ [(item_name, d)]))
           else acc))"

fun active_loop ::
  "real \<Rightarrow> real \<times> (string \<times> real) list \<Rightarrow> string list \<Rightarrow> real \<times> (string \<times> real) list" where
  "active_loop eff_armor acc [] = acc"
| "active_loop eff_armor acc (item_name # rest) =
     active_loop eff_armor (active_step eff_armor acc item_name) rest"

subsection \<open>Effective HP of the target\<close>

text \<open>
  The loop over \<open>enemy_stats["item_shields"]\<close>; \<open>acc\<close> is
  \<open>(effective_hp, item_flags, confidence_penalty)\<close>. \<open>isinstance(v, (int, float))\<close>
  is the \<open>Num\<close> case.
\<close>

definition shield_step ::
  "real \<times> item_flag list \<times> real \<Rightarrow> string \<times> shield_val \<Rightarrow> real \<times> item_flag list \<times> real" where
  "shield_step acc sh =
     (case acc of (effective_hp, iflags, penalty) \<Rightarrow>
      case sh of (item_name, shield_val) \<Rightarrow>
      (case shield_val of
         Num v \<Rightarrow> (effective_hp + v, iflags @ [FlatShieldFlag item_name v], penalty + 0.08)
       | Str t \<Rightarrow> (effective_hp, iflags @ [TextShieldFlag item_name t], penalty + 0.08)))"

fun shields_loop ::
  "real \<times> item_flag list \<times> real \<Rightarrow> (string \<times> shield_val) list \<Rightarrow> real \<times> item_flag list \<times> real" where
  "shields_loop acc [] = acc"
| "shields_loop acc (sh # rest) = shields_loop (shield_step acc sh) rest"

text \<open>
  The loop over the target's summoner spells; \<open>acc\<close> is
  \<open>(effective_hp, dmg_modifier, summoner_warnings, confidence_penalty)\<close>.
\<close>

definition summoner_step ::
  "real \<times> real \<times> summoner_warning list \<times> real \<Rightarrow> string
    \<Rightarrow> real \<times> real \<times> summoner_warning list \<times> real" where
  "summoner_step acc s =
     (case acc of (effective_hp, dmg_modifier, warns, penalty) \<Rightarrow>
      (case map_of SUMMONER_ADJUSTMENTS s of
         None \<Rightarrow> acc
       | Some adj \<Rightarrow>
           (let acc1 = (case hp_modifier adj of
                          Some m \<Rightarrow> (effective_hp * m, dmg_modifier,
                                     warns @ [HpModWarning (adj_label adj) m], penalty + 0.08)
                        | None \<Rightarrow> acc)
            in case acc1 of (effective_hp1, dmg_modifier1, warns1, penalty1) \<Rightarrow>
               (case my_dmg_modifier adj of
                  Some m \<Rightarrow> (effective_hp1, dmg_modifier1 * m,
                             warns1 @ [DmgModWarning (adj_label adj) m], penalty1 + 0.12)
                | None \<Rightarrow> acc1))))"

fun summoners_loop ::
  "real \<times> real \<times> summoner_warning list \<times> real \<Rightarrow> string list
    \<Rightarrow> real \<times> real \<times> summoner_warning list \<times> real" where
  "summoners_loop acc [] = acc"
| "summoners_loop acc (s # rest) = summoners_loop (summoner_step acc s) rest"

text \<open>The long dash of the flag messages, in UTF-8.\<close>

definition emdash :: string where
  "emdash = [CHR 0xE2, CHR 0x80, CHR 0x94]"

definition ITEM_CD_FLAGS :: "(string \<times> string) list" where
  "ITEM_CD_FLAGS =
    [(''eclipse'',             ''Eclipse proc (6s CD) '' @ emdash @ '' unknown state''),
     (''immortal_shieldbow'',  ''Shieldbow shield (90s CD) '' @ emdash @ '' unknown state''),
     (''steraks_gage'',        ''Sterak'' @ [apostrophe] @ ''s shield (60s CD) '' @ emdash @ '' unknown state''),
     (''gargoyle_stoneplate'', ''Gargoyle active (90s CD) '' @ emdash @ '' unknown state'')]"

text \<open>The loop over the target's items; \<open>acc\<close> is \<open>(item_flags, confidence_penalty)\<close>.\<close>

definition cd_step :: "item_flag list \<times> real \<Rightarrow> string \<Rightarrow> item_flag list \<times> real" where
  "cd_step acc item_name =
     (case acc of (iflags, penalty) \<Rightarrow>
      (case map_of ITEM_CD_FLAGS (normalize_item_key item_name) of
         Some msg \<Rightarrow> (iflags @ [CooldownFlag msg], penalty + 0.05)
       | None \<Rightarrow> acc))"

fun cd_loop :: "item_flag list \<times> real \<Rightarrow> string list \<Rightarrow> item_flag list \<times> real" where
  "cd_loop acc [] = acc"
| "cd_loop acc (item_name # rest) = cd_loop (cd_step acc item_name) rest"

subsection \<open>The evaluated path\<close>

text \<open>
  The local variables of \<open>calculate_kill_chance\<close> once the auto-pause checks have
  passed, as they stand at the end of the function. \<open>reported_effective_hp\<close> is
  \<open>effective_hp\<close> at the moment \<open>result.enemy_effective_hp\<close> is assigned.
\<close>

record evaluation =
  ev_enemy_stats :: enemy_stats
  phys_raw :: real
  magic_raw :: real
  eff_armor :: real
  eff_mr :: real
  phys_dealt :: real
  magic_dealt :: real
  active_dmg :: real
  ev_active_items_used :: "(string \<times> real) list"
  total_dealt :: real
  reported_effective_hp :: real
  effective_hp :: real
  dmg_modifier :: real
  adjusted_dealt :: real
  confidence_penalty :: real
  ev_item_flags :: "item_flag list"
  ev_summoner_warnings :: "summoner_warning list"
  ev_kill_ratio :: real
  base_conf :: real
  uncertainty :: real
  final_conf :: real

text \<open>
  The function body is straight-line code in sections; each section is a definition
  here. First the item section of the effective HP: the shield loop, Death's Dance
  and the revive flag. It yields \<open>(effective_hp, item_flags, confidence_penalty)\<close>
  as they stand when \<open>result.enemy_effective_hp\<close> is assigned.
\<close>

definition item_effects :: "enemy_stats \<Rightarrow> real \<times> item_flag list \<times> real" where
  "item_effects es =
     (let (hp1, iflags1, pen1) = shields_loop (current_hp es, [], 0) (item_shields es);
          (hp2, iflags2, pen2) =
             (if death_dance_flag es
              then (hp1 * 1.15, iflags1 @ [DeathsDanceFlag], pen1 + 0.05)
              else (hp1, iflags1, pen1));
          (iflags3, pen3) =
             (if item_revive es then (iflags2 @ [ReviveFlag], pen2 + 0.20) else (iflags2, pen2))
      in (hp2, iflags3, pen3))"

text \<open>
  The summoner section, from \<open>effective_hp\<close> and \<open>confidence_penalty\<close> so far, with
  \<open>dmg_modifier = 1.0\<close>; then the section of the cooldown flags.
\<close>

definition summoner_effects ::
  "enemy \<Rightarrow> real \<Rightarrow> real \<Rightarrow> real \<times> real \<times> summoner_warning list \<times> real" where
  "summoner_effects en hp pen =
     summoners_loop (hp, 1, [], pen) (case en_summoners en of Some xs \<Rightarrow> xs | None \<Rightarrow> [])"

definition cd_flags :: "enemy \<Rightarrow> item_flag list \<Rightarrow> real \<Rightarrow> item_flag list \<times> real" where
  "cd_flags en iflags pen =
     cd_loop (iflags, pen) (case en_items en of Some xs \<Rightarrow> xs | None \<Rightarrow> [])"

definition active_items :: "my_state \<Rightarrow> real \<Rightarrow> real \<times> (string \<times> real) list" where
  "active_items my e_armor =
     active_loop e_armor (0, []) (case ms_items my of Some xs \<Rightarrow> xs | None \<Rightarrow> [])"

text \<open>\<open>my_state.get("spell_ranks", {"q":1,"w":1,"e":1,"r":1})\<close>.\<close>

definition spell_ranks_of :: "my_state \<Rightarrow> (string \<rightharpoonup> int)" where
  "spell_ranks_of my =
     (case ms_spell_ranks my of
        Some sr \<Rightarrow> sr
      | None \<Rightarrow> [''q'' \<mapsto> 1, ''w'' \<mapsto> 1, ''e'' \<mapsto> 1, ''r'' \<mapsto> 1])"

text \<open>Everything after the combo damage: no step of it can raise.\<close>

definition evaluation_of :: "my_state \<Rightarrow> enemy \<Rightarrow> enemy_stats \<Rightarrow> real \<Rightarrow> real \<Rightarrow> evaluation" where
  "evaluation_of my en es p_raw m_raw =
     (let e_armor = calc_effective_armor (armor es) my;
          e_mr = max 0 (mr es - get0 (ms_magic_pen_flat my));
          p_dealt = p_raw * dmg_reduction e_armor;
          m_dealt = m_raw * mr_reduction e_mr;
          total0 = p_dealt + m_dealt;
          (a_dmg, used) = active_items my e_armor;
          total = total0 + a_dmg;
          (hp3, iflags3, pen3) = item_effects es;
          reported = hp3;
          (hp4, modifier, warns, pen4) = summoner_effects en hp3 pen3;
          adjusted = total * modifier;
          (iflags5, pen5) = cd_flags en iflags3 pen4;
          ratio = adjusted / max hp4 1;
          bconf = min 0.97 ratio;
          unc = min 0.40 pen5;
          fconf = max 0 (bconf - unc)
      in \<lparr>ev_enemy_stats = es, phys_raw = p_raw, magic_raw = m_raw, eff_armor = e_armor,
          eff_mr = e_mr, phys_dealt = p_dealt, magic_dealt = m_dealt, active_dmg = a_dmg,
          ev_active_items_used = used, total_dealt = total, reported_effective_hp = reported,
          effective_hp = hp4, dmg_modifier = modifier, adjusted_dealt = adjusted,
          confidence_penalty = pen5, ev_item_flags = iflags5, ev_summoner_warnings = warns,
          ev_kill_ratio = ratio, base_conf = bconf, uncertainty = unc,
          final_conf = fconf\<rparr>)"

definition evaluate :: "my_state \<Rightarrow> enemy \<Rightarrow> real option \<Rightarrow> error + evaluation" where
  "evaluate my en enemy_hp_pct =
     (case build_enemy_stats en enemy_hp_pct of
        Inl e \<Rightarrow> Inl e
      | Inr es \<Rightarrow>
          (case calculate_combo_damage my es (spell_ranks_of my) of
             Inl e \<Rightarrow> Inl e
           | Inr (p_raw, m_raw, bd) \<Rightarrow> Inr (evaluation_of my en es p_raw m_raw)))"

subsection \<open>\<open>calculate_kill_chance\<close>\<close>

text \<open>\<open>my_hp_percent or my_state.get("hp_percent", 1.0)\<close>: \<open>None\<close> and \<open>0.0\<close> are falsy.\<close>

definition my_hp_of :: "real option \<Rightarrow> my_state \<Rightarrow> real" where
  "my_hp_of my_hp_percent my =
     (let fallback = (case ms_hp_percent my of Some h \<Rightarrow> h | None \<Rightarrow> 1) in
      case my_hp_percent of
        Some v \<Rightarrow> if v \<noteq> 0 then v else fallback
      | None \<Rightarrow> fallback)"

definition solo_flag :: string where
  "solo_flag = ''Solo engage '' @ emdash @ '' watch for Phase Rush / Flash escape''"

definition verdict_of :: "real \<Rightarrow> string" where
  "verdict_of fconf =
     (if fconf \<ge> THRESHOLD_GO then ''GO''
      else if fconf \<ge> THRESHOLD_RISKY then ''RISKY''
      else ''NO GO'')"

definition calculate_kill_chance ::
  "my_state \<Rightarrow> enemy \<Rightarrow> real option \<Rightarrow> real option \<Rightarrow> int \<Rightarrow> real \<Rightarrow> error + KillCalcResult" where
  "calculate_kill_chance my en enemy_hp_pct my_hp_percent allies_nearby game_time =
     (let result = new_result (case en_champion en of Some c \<Rightarrow> c | None \<Rightarrow> ''Unknown'')
                              (case ms_champion my of Some c \<Rightarrow> c | None \<Rightarrow> ''Unknown'');
          my_hp = my_hp_of my_hp_percent my
      in if game_time > 0 \<and> game_time < 10
         then Inr (result\<lparr>paused := True, pause_reason := PreGame\<rparr>)
         else if my_hp < MIN_MY_HP_TO_ENGAGE
         then Inr (result\<lparr>paused := True, pause_reason := HpTooLow my_hp\<rparr>)
         else if (case en_is_dead en of Some d \<Rightarrow> d | None \<Rightarrow> False)
         then Inr (result\<lparr>paused := True, pause_reason := EnemyDead\<rparr>)
         else if game_time > 45 * 60
         then Inr (result\<lparr>paused := True, pause_reason := LateGame\<rparr>)
         else
           (case evaluate my en enemy_hp_pct of
              Inl e \<Rightarrow> Inl e
            | Inr ev \<Rightarrow>
                (case get_combo (case ms_champion my of Some c \<Rightarrow> c | None \<Rightarrow> ''_default'') of
                   Inl e \<Rightarrow> Inl e
                 | Inr cb \<Rightarrow>
                     Inr (result
                       \<lparr>enemy_armor_used := armor (ev_enemy_stats ev),
                        enemy_mr_used := mr (ev_enemy_stats ev),
                        enemy_max_hp := max_hp (ev_enemy_stats ev),
                        enemy_current_hp := current_hp (ev_enemy_stats ev),
                        enemy_hp_percent := hp_percent (ev_enemy_stats ev),
                        raw_damage := py_round (phys_raw ev + magic_raw ev) 1,
                        real_damage := py_round (total_dealt ev) 1,
                        active_item_damage := py_round (active_dmg ev) 1,
                        item_flags := ev_item_flags ev,
                        enemy_effective_hp := py_round (reported_effective_hp ev) 1,
                        summoner_warnings := ev_summoner_warnings ev,
                        flags := (if allies_nearby = 0 then [solo_flag] else []),
                        kill_ratio := py_round (ev_kill_ratio ev) 3,
                        confidence := py_round (final_conf ev) 3,
                        verdict := verdict_of (final_conf ev),
                        r_combo_label := combo_label cb,
                        r_spell_order := spell_order cb,
                        active_items_used := ev_active_items_used ev\<rparr>))))"

section \<open>Auxiliary definitions for the properties\<close>

text \<open>
  What an entry \<open>(item_name, d)\<close> of \<open>active_items_used\<close> must be when the effective
  armor is \<open>e\<close>: the item is an active damage item with positive damage, and \<open>d\<close> is
  that damage, through the armor multiplier when its type is physical.
\<close>

definition active_entry_ok :: "real \<Rightarrow> string \<times> real \<Rightarrow> bool" where
  "active_entry_ok e nd =
     (case get_active_damage (fst nd) of
        None \<Rightarrow> False
      | Some act \<Rightarrow>
          0 < damage act \<and>
          snd nd = (if dmg_kind act = ''physical'' then damage act * dmg_reduction e
                    else damage act))"





text \<open>
  The result of a paused call: the dataclass defaults, the two champion names, the
  flag and the reason. No stat and no damage field is set.
\<close>

definition paused_result :: "my_state \<Rightarrow> enemy \<Rightarrow> pause_reason \<Rightarrow> KillCalcResult" where
  "paused_result my en reason =
     (new_result (case en_champion en of Some c \<Rightarrow> c | None \<Rightarrow> ''Unknown'')
                 (case ms_champion my of Some c \<Rightarrow> c | None \<Rightarrow> ''Unknown''))
       \<lparr>paused := True, pause_reason := reason\<rparr>"

section \<open>Concrete inputs\<close>

text \<open>The display name of Kha'Zix, with its apostrophe.\<close>

definition khazix_name :: string where
  "khazix_name = ''Kha'' @ [apostrophe] @ ''Zix''"

definition demo_my :: my_state where
  "demo_my =
     \<lparr>ms_champion = Some khazix_name, ms_level = Some 11,
      ms_total_ad = Some 180, ms_ap = Some 0, ms_lethality = Some 10,
      ms_armor_pen_pct = Some 0, ms_magic_pen_flat = Some 0, ms_hp_percent = Some (4 / 5),
      ms_spell_ranks = Some [''q'' \<mapsto> 3, ''w'' \<mapsto> 1, ''e'' \<mapsto> 3, ''r'' \<mapsto> 1],
      ms_items = Some [''Galeforce'']\<rparr>"

definition demo_enemy :: enemy where
  "demo_enemy =
     \<lparr>en_champion = Some ''Darius'', en_level = Some 10, en_items = Some [''Thornmail''],
      en_hp_max_real = None, en_hp_percent = None, en_is_dead = Some False,
      en_summoners = Some [''SummonerBarrier'', ''SummonerFlash'']\<rparr>"

text \<open>The stats of \<open>demo_enemy\<close> at an observed HP fraction of 0.4.\<close>

definition demo_stats :: enemy_stats where
  "demo_stats =
     \<lparr>armor = 135, mr = 1009 / 20, max_hp = 2026, current_hp = 4052 / 5, hp_percent = 2 / 5,
      item_shields = [], item_revive = False, death_dance_flag = False\<rparr>"

text \<open>The Q component of the Kha'Zix combo: a table of five entries, rank source \<open>q\<close>.\<close>

definition khazix_q :: component where
  "khazix_q = mk_component ''Q isolated'' [70, 95, 120, 145, 170] 1.15 ''physical'' (Some ''q'')"

text \<open>
  The local variables and the result of the call
  \<open>calculate_kill_chance(demo_my, demo_enemy, enemy_hp_percent=0.4, game_time=600)\<close>.
\<close>

definition demo_evaluation :: evaluation where
  "demo_evaluation =
     \<lparr>ev_enemy_stats = demo_stats,
      phys_raw = 943, magic_raw = 0, eff_armor = 1139 / 9, eff_mr = 1009 / 20,
      phys_dealt = 848700 / 2039, magic_dealt = 0, active_dmg = 135000 / 2039,
      ev_active_items_used = [(''Galeforce'', 135000 / 2039)],
      total_dealt = 983700 / 2039, reported_effective_hp = 4052 / 5, effective_hp = 1013,
      dmg_modifier = 1, adjusted_dealt = 983700 / 2039, confidence_penalty = 2 / 25,
      ev_item_flags = [], ev_summoner_warnings = [HpModWarning ''Barrier'' (5 / 4)],
      ev_kill_ratio = 983700 / 2065507, base_conf = 983700 / 2065507, uncertainty = 2 / 25,
      final_conf = 20461486 / 51637675\<rparr>"

definition demo_result :: KillCalcResult where
  "demo_result =
     \<lparr>enemy_champion = ''Darius'', my_champion = khazix_name,
      raw_damage = 943, real_damage = 2412 / 5, active_item_damage = 331 / 5,
      enemy_current_hp = 4052 / 5, enemy_max_hp = 2026, enemy_hp_percent = 2 / 5,
      enemy_effective_hp = 4052 / 5, enemy_armor_used = 135, enemy_mr_used = 1009 / 20,
      kill_ratio = 119 / 250, confidence = 99 / 250, verdict = ''NO GO'',
      r_combo_label = ''E '' @ arrow @ '' Q (isolated) '' @ arrow @ '' W '' @ arrow @ '' AA'',
      r_spell_order = ''E > Q > W > AA'',
      active_items_used = [(''Galeforce'', 135000 / 2039)],
      flags = [solo_flag],
      summoner_warnings = [HpModWarning ''Barrier'' (5 / 4)],
      item_flags = [], paused = False, pause_reason = NotPaused\<rparr>"

text \<open>\<open>demo_enemy\<close> with a max HP of 2000 read from the target panel.\<close>

definition c1_enemy :: enemy where
  "c1_enemy =
     \<lparr>en_champion = Some ''Darius'', en_level = Some 10, en_items = Some [''Thornmail''],
      en_hp_max_real = Some 2000, en_hp_percent = None, en_is_dead = Some False,
      en_summoners = Some [''SummonerBarrier'', ''SummonerFlash'']\<rparr>"

text \<open>A target holding the item whose key is \<open>sterak_gage\<close>, and its stats.\<close>

definition c2_enemy :: enemy where
  "c2_enemy =
     \<lparr>en_champion = Some ''Darius'', en_level = Some 10, en_items = Some [''Sterak Gage''],
      en_hp_max_real = None, en_hp_percent = None, en_is_dead = Some False,
      en_summoners = Some [''SummonerFlash'']\<rparr>"

definition c2_stats :: enemy_stats where
  "c2_stats =
     \<lparr>armor = 75, mr = 1009 / 20, max_hp = 2076, current_hp = 2076, hp_percent = 1,
      item_shields = [(''Sterak Gage'', Num (1 / 5))], item_revive = False,
      death_dance_flag = False\<rparr>"

text \<open>\<open>demo_enemy\<close>, flagged dead.\<close>

definition dead_enemy :: enemy where
  "dead_enemy =
     \<lparr>en_champion = Some ''Darius'', en_level = Some 10, en_items = Some [''Thornmail''],
      en_hp_max_real = None, en_hp_percent = None, en_is_dead = Some True,
      en_summoners = Some [''SummonerBarrier'', ''SummonerFlash'']\<rparr>"




section \<open>Evaluating the tables\<close>

lemma stats_default_present:
  "map_of CHAMPION_STATS ''_default'' = Some (mk_stats 28 4.0 32 1.5 580 95)"
  by (simp add: CHAMPION_STATS_def)

lemma combos_default_present:
  "map_of CHAMPION_COMBOS ''_default'' =
     Some \<lparr>combo_label = ''Full combo'', spell_order = ''Spell1 > Spell2 > AA'',
           damage_components = [mk_component ''Estimated combo'' [300] 2.5 ''physical'' None]\<rparr>"
  by (simp add: CHAMPION_COMBOS_def)

lemma default_key: "champion_key ''_default'' = ''_default''"
  by (simp add: champion_key_def lower_def lower_char_def remove_char_def apostrophe_def)

lemma darius_level_10:
  "calculate_stats_at_level ''Darius'' 10 =
     Inr \<lparr>lv_armor = 75, lv_mr = 1009 / 20, lv_max_hp = 1676\<rparr>"
  by (simp add: calculate_stats_at_level_def get_champion_stats_def champion_key_def lower_def
      lower_char_def remove_char_def apostrophe_def CHAMPION_STATS_def mk_stats_def)

lemma thornmail_step:
  "item_step a ''Thornmail'' =
     a\<lparr>acc_armor := acc_armor a + 60, acc_max_hp := acc_max_hp a + 350\<rparr>"
  by (simp add: item_step_def normalize_item_key_def lower_def lower_char_def remove_char_def
      replace_char_def ITEM_STATS_def no_item_def get0_def apostrophe_def)

lemma demo_build: "build_enemy_stats demo_enemy (Some (2 / 5)) = Inr demo_stats"
  by (simp add: build_enemy_stats_def demo_enemy_def demo_stats_def darius_level_10
      thornmail_step)

lemma khazix_combo:
  "get_combo khazix_name = Inr
      \<lparr>combo_label = ''E '' @ arrow @ '' Q (isolated) '' @ arrow @ '' W '' @ arrow @ '' AA'',
       spell_order = ''E > Q > W > AA'',
       damage_components =
         [mk_component ''Q isolated'' [70, 95, 120, 145, 170] 1.15 ''physical'' (Some ''q''),
          mk_component ''W spike'' [85, 115, 145, 175, 205] 1.0 ''physical'' (Some ''w''),
          mk_component ''E leap'' [65, 100, 135, 170, 205] 0.2 ''physical'' (Some ''e''),
          mk_component ''AA'' [0] 1.0 ''physical'' None]\<rparr>"
  by (simp add: khazix_name_def get_combo_def champion_key_def lower_def lower_char_def
      remove_char_def apostrophe_def CHAMPION_COMBOS_def)

lemma demo_combo:
  "calculate_combo_damage demo_my es (spell_ranks_of demo_my) =
     Inr (943, 0, [(''Q isolated'', 327, ''physical''), (''W spike'', 265, ''physical''),
                   (''E leap'', 171, ''physical''), (''AA'', 180, ''physical'')])"
  by (simp add: calculate_combo_damage_def demo_my_def spell_ranks_of_def
      khazix_combo mk_component_def component_step_def get_base_damage_at_rank_def rank_idx_def
      py_index_def get0_def py_round_def round_half_even_def Let_def)

lemma demo_evaluate:
  "evaluate demo_my demo_enemy (Some (2 / 5)) =
     Inr (evaluation_of demo_my demo_enemy demo_stats 943 0)"
  by (simp add: evaluate_def demo_build demo_combo)

lemma demo_eff_armor: "calc_effective_armor 135 demo_my = 1139 / 9"
  by (simp add: calc_effective_armor_def demo_my_def get0_def)

lemma galeforce:
  "get_active_damage ''Galeforce'' =
     Some \<lparr>damage = 150, dmg_kind = ''physical'', item_note = ''dash + damage''\<rparr>"
  by (simp add: get_active_damage_def lower_def lower_char_def remove_char_def replace_char_def
      apostrophe_def ACTIVE_DAMAGE_ITEMS_def)

lemma demo_active:
  "active_items demo_my (1139 / 9) = (135000 / 2039, [(''Galeforce'', 135000 / 2039)])"
  by (simp add: active_items_def demo_my_def active_step_def galeforce dmg_reduction_def Let_def)

section \<open>The evaluated path, field by field\<close>

lemma evaluation_of_fields:
  "ev_enemy_stats (evaluation_of my en es p m) = es"
  "phys_raw (evaluation_of my en es p m) = p"
  "magic_raw (evaluation_of my en es p m) = m"
  "eff_armor (evaluation_of my en es p m) = calc_effective_armor (armor es) my"
  "phys_dealt (evaluation_of my en es p m) = p * dmg_reduction (calc_effective_armor (armor es) my)"
  "active_dmg (evaluation_of my en es p m) = fst (active_items my (calc_effective_armor (armor es) my))"
  "ev_active_items_used (evaluation_of my en es p m) =
     snd (active_items my (calc_effective_armor (armor es) my))"
  by (simp_all add: evaluation_of_def Let_def split_beta)

lemma evaluateE:
  assumes "evaluate my en hp = Inr ev"
  obtains es p m bd where "build_enemy_stats en hp = Inr es"
    and "calculate_combo_damage my es (spell_ranks_of my) = Inr (p, m, bd)"
    and "ev = evaluation_of my en es p m"
  using assms by (auto simp: evaluate_def split: sum.splits)

section \<open>Damage multiplier\<close>





section \<open>Effective armor\<close>

lemma calc_effective_armor_nonneg: "0 \<le> calc_effective_armor b my"
  by (simp add: calc_effective_armor_def Let_def)

lemma dmg_reduction_nonneg_armor:
  "0 \<le> a \<Longrightarrow> dmg_reduction a = 100 / (100 + a) \<and> 0 < dmg_reduction a \<and> dmg_reduction a \<le> 1"
  by (simp add: dmg_reduction_def field_simps)

lemma active_step_ok:
  "list_all (active_entry_ok e) (snd acc) \<Longrightarrow>
   list_all (active_entry_ok e) (snd (active_step e acc n))"
  by (cases acc) (auto simp: active_step_def active_entry_ok_def Let_def split: option.splits)

lemma active_loop_ok:
  "list_all (active_entry_ok e) (snd acc) \<Longrightarrow>
   list_all (active_entry_ok e) (snd (active_loop e acc xs))"
  by (induction xs arbitrary: acc) (simp_all add: active_step_ok)

lemma active_items_ok: "list_all (active_entry_ok e) (snd (active_items my e))"
  by (simp add: active_items_def active_loop_ok)

text \<open>
  Claim C10. \<open>_calc_effective_armor\<close> never returns a negative value, so on it
  \<open>_dmg_reduction\<close> takes its first branch and is at most 1. On every evaluated call
  the effective armor is such a value, the combo's physical damage is multiplied by
  \<open>100 / (100 + eff_armor)\<close>, and every active-item entry is the item's damage, through
  the same multiplier when physical.
\<close>

theorem effective_armor_nonneg:
  "0 \<le> calc_effective_armor b my \<and>
   dmg_reduction (calc_effective_armor b my) = 100 / (100 + calc_effective_armor b my) \<and>
   dmg_reduction (calc_effective_armor b my) \<le> 1 \<and>
   (evaluate my en hp = Inr ev \<longrightarrow>
      eff_armor ev = calc_effective_armor (armor (ev_enemy_stats ev)) my \<and>
      0 \<le> eff_armor ev \<and>
      phys_dealt ev = phys_raw ev * (100 / (100 + eff_armor ev)) \<and>
      100 / (100 + eff_armor ev) \<le> 1 \<and>
      list_all (active_entry_ok (eff_armor ev)) (ev_active_items_used ev) \<and>
      dmg_reduction (eff_armor ev) = 100 / (100 + eff_armor ev))"
proof (intro conjI impI)
  show nn: "0 \<le> calc_effective_armor b my"
    by (rule calc_effective_armor_nonneg)
  show "dmg_reduction (calc_effective_armor b my) = 100 / (100 + calc_effective_armor b my)"
    using dmg_reduction_nonneg_armor [OF nn] by simp
  show "dmg_reduction (calc_effective_armor b my) \<le> 1"
    using dmg_reduction_nonneg_armor [OF nn] by simp
next
  assume a: "evaluate my en hp = Inr ev"
  then obtain es p m bd where
    "calculate_combo_damage my es (spell_ranks_of my) = Inr (p, m, bd)"
    and ev: "ev = evaluation_of my en es p m"
    by (rule evaluateE)
  show e: "eff_armor ev = calc_effective_armor (armor (ev_enemy_stats ev)) my"
    by (simp add: ev evaluation_of_fields)
  then show nn: "0 \<le> eff_armor ev"
    by (simp add: calc_effective_armor_nonneg)
  show red: "dmg_reduction (eff_armor ev) = 100 / (100 + eff_armor ev)"
    using dmg_reduction_nonneg_armor [OF nn] by simp
  show "100 / (100 + eff_armor ev) \<le> 1"
    using dmg_reduction_nonneg_armor [OF nn] by simp
  have "phys_dealt ev = phys_raw ev * dmg_reduction (eff_armor ev)"
    by (simp add: ev evaluation_of_fields)
  then show "phys_dealt ev = phys_raw ev * (100 / (100 + eff_armor ev))"
    using red by simp
  show "list_all (active_entry_ok (eff_armor ev)) (ev_active_items_used ev)"
    by (simp add: ev evaluation_of_fields active_items_ok)
qed

theorem effective_armor_nonneg_witness:
  "evaluate demo_my demo_enemy (Some (2 / 5)) =
     Inr (evaluation_of demo_my demo_enemy demo_stats 943 0) \<and>
   eff_armor (evaluation_of demo_my demo_enemy demo_stats 943 0) = 1139 / 9 \<and>
   phys_dealt (evaluation_of demo_my demo_enemy demo_stats 943 0) =
     943 * (100 / (100 + 1139 / 9)) \<and>
   ev_active_items_used (evaluation_of demo_my demo_enemy demo_stats 943 0) =
     [(''Galeforce'', 135000 / 2039)]"
proof -
  let ?ev = "evaluation_of demo_my demo_enemy demo_stats 943 0"
  have e: "eff_armor ?ev = 1139 / 9"
    by (simp add: evaluation_of_fields demo_stats_def demo_eff_armor)
  have u: "ev_active_items_used ?ev = [(''Galeforce'', 135000 / 2039)]"
    by (simp add: evaluation_of_fields demo_stats_def demo_eff_armor demo_active)
  have r: "phys_raw ?ev = 943"
    by (simp add: evaluation_of_fields)
  from effective_armor_nonneg [of 135 demo_my demo_enemy "Some (2 / 5)" ?ev] demo_evaluate
  have "phys_dealt ?ev = phys_raw ?ev * (100 / (100 + eff_armor ?ev))"
    by blast
  then have "phys_dealt ?ev = 943 * (100 / (100 + 1139 / 9))"
    by (simp only: e r)
  then show ?thesis
    using e u demo_evaluate by blast
qed

section \<open>Rank indexing\<close>

lemma py_index_last: "xs \<noteq> [] \<Longrightarrow> py_index xs (int (length xs) - 1) = Inr (last xs)"
  by (simp add: py_index_def Let_def last_conv_nth nat_diff_distrib')

lemma rank_idx_le: "rank_idx cmp sr k \<le> int (length (base cmp)) - 1"
  by (simp add: rank_idx_def Let_def)

lemma rank_idx_clamped:
  "sr k = Some r \<Longrightarrow> int (length (base cmp)) \<le> r \<Longrightarrow>
   rank_idx cmp sr k = int (length (base cmp)) - 1"
  by (simp add: rank_idx_def Let_def)

lemma base_damage_clamped:
  assumes "base cmp \<noteq> []" "rank_index cmp = Some k" "sr k = Some r"
    "int (length (base cmp)) \<le> r"
  shows "get_base_damage_at_rank cmp sr = Inr (last (base cmp))"
  using assms by (simp add: get_base_damage_at_rank_def rank_idx_clamped py_index_last)

text \<open>
  Claim C7. The index derived from a rank never exceeds the last index of the
  base-damage table. For a component with a non-empty table and a rank source, every
  rank of at least the table's length yields the table's last entry; so a table of
  five entries gives at rank 7 what it gives at rank 5.
\<close>

theorem base_damage_rank_clamped:
  "rank_idx cmp sr k \<le> int (length (base cmp)) - 1 \<and>
   (base cmp \<noteq> [] \<and> rank_index cmp = Some k \<and> sr k = Some r \<and> int (length (base cmp)) \<le> r
      \<longrightarrow> get_base_damage_at_rank cmp sr = Inr (last (base cmp))) \<and>
   (length (base cmp) = 5 \<and> rank_index cmp = Some k
      \<longrightarrow> get_base_damage_at_rank cmp (sr(k \<mapsto> 7)) = get_base_damage_at_rank cmp (sr(k \<mapsto> 5)))"
proof (intro conjI impI)
  show "rank_idx cmp sr k \<le> int (length (base cmp)) - 1" by (rule rank_idx_le)
next
  assume "base cmp \<noteq> [] \<and> rank_index cmp = Some k \<and> sr k = Some r \<and> int (length (base cmp)) \<le> r"
  then show "get_base_damage_at_rank cmp sr = Inr (last (base cmp))"
    by (simp add: base_damage_clamped)
next
  assume a: "length (base cmp) = 5 \<and> rank_index cmp = Some k"
  then have ne: "base cmp \<noteq> []" by auto
  have "get_base_damage_at_rank cmp (sr(k \<mapsto> 7)) = Inr (last (base cmp))"
    using a ne by (intro base_damage_clamped [where k = k and r = 7]) simp_all
  moreover have "get_base_damage_at_rank cmp (sr(k \<mapsto> 5)) = Inr (last (base cmp))"
    using a ne by (intro base_damage_clamped [where k = k and r = 5]) simp_all
  ultimately show
    "get_base_damage_at_rank cmp (sr(k \<mapsto> 7)) = get_base_damage_at_rank cmp (sr(k \<mapsto> 5))"
    by simp
qed

theorem base_damage_rank_clamped_witness:
  "base khazix_q \<noteq> [] \<and> rank_index khazix_q = Some ''q'' \<and> length (base khazix_q) = 5 \<and>
   get_base_damage_at_rank khazix_q [''q'' \<mapsto> 7] = Inr 170 \<and>
   get_base_damage_at_rank khazix_q (Map.empty(''q'' \<mapsto> 7)) =
     get_base_damage_at_rank khazix_q (Map.empty(''q'' \<mapsto> 5))"
proof -
  have b: "base khazix_q \<noteq> []" "rank_index khazix_q = Some ''q''" "length (base khazix_q) = 5"
    "last (base khazix_q) = 170"
    by (simp_all add: khazix_q_def mk_component_def)
  have r: "[''q'' \<mapsto> (7::int)] ''q'' = Some 7" "int (length (base khazix_q)) \<le> 7"
    by (simp_all add: khazix_q_def mk_component_def)
  from base_damage_rank_clamped [of khazix_q "[''q'' \<mapsto> 7]" "''q''" 7] b(1,2) r
  have "get_base_damage_at_rank khazix_q [''q'' \<mapsto> 7] = Inr (last (base khazix_q))"
    by blast
  moreover from base_damage_rank_clamped [of khazix_q Map.empty "''q''" 7] b(2,3)
  have "get_base_damage_at_rank khazix_q (Map.empty(''q'' \<mapsto> 7)) =
     get_base_damage_at_rank khazix_q (Map.empty(''q'' \<mapsto> 5))"
    by blast
  ultimately show ?thesis
    using b by simp
qed

section \<open>Level scaling\<close>

lemma champion_key_fixed:
  assumes "\<forall>c\<in>set k. lower_char c = c \<and> c \<noteq> apostrophe \<and> c \<noteq> CHR '' '' \<and> c \<noteq> CHR ''.''"
  shows "champion_key k = k"
proof -
  have "lower k = k"
    unfolding lower_def using assms by (intro map_idI) blast
  moreover have "remove_char apostrophe k = k" "remove_char CHR '' '' k = k"
    "remove_char CHR ''.'' k = k"
    unfolding remove_char_def using assms by (intro filter_True; blast)+
  ultimately show ?thesis by (simp add: champion_key_def)
qed

lemma stats_keys_distinct: "distinct (map fst CHAMPION_STATS)"
  by (simp add: CHAMPION_STATS_def)

lemma stats_keys_canonical:
  "\<forall>(k, s) \<in> set CHAMPION_STATS.
     \<forall>c\<in>set k. lower_char c = c \<and> c \<noteq> apostrophe \<and> c \<noteq> CHR '' '' \<and> c \<noteq> CHR ''.''"
  by (simp add: CHAMPION_STATS_def lower_char_def apostrophe_def)

lemma per_level_nonneg:
  "\<forall>(k, s) \<in> set CHAMPION_STATS.
     0 \<le> armor_per_level s \<and> 0 \<le> mr_per_level s \<and> 0 \<le> hp_per_level s"
  by (simp add: CHAMPION_STATS_def mk_stats_def)

lemma get_champion_stats_key:
  assumes "(k, s) \<in> set CHAMPION_STATS"
  shows "get_champion_stats k = Inr s"
proof -
  have "champion_key k = k"
    using stats_keys_canonical assms by (intro champion_key_fixed) blast
  moreover have "map_of CHAMPION_STATS k = Some s"
    using stats_keys_distinct assms by (rule map_of_is_SomeI)
  ultimately show ?thesis
    by (simp add: get_champion_stats_def stats_default_present)
qed

lemma get_champion_stats_in_table:
  "\<exists>k s. get_champion_stats c = Inr s \<and> (k, s) \<in> set CHAMPION_STATS"
proof (cases "map_of CHAMPION_STATS (champion_key c)")
  case None
  then have "get_champion_stats c = Inr (mk_stats 28 4.0 32 1.5 580 95)"
    by (simp add: get_champion_stats_def stats_default_present)
  moreover have "(''_default'', mk_stats 28 4.0 32 1.5 580 95) \<in> set CHAMPION_STATS"
    using stats_default_present by (rule map_of_SomeD)
  ultimately show ?thesis by blast
next
  case (Some s)
  then have "get_champion_stats c = Inr s"
    by (simp add: get_champion_stats_def stats_default_present)
  moreover have "(champion_key c, s) \<in> set CHAMPION_STATS"
    using Some by (rule map_of_SomeD)
  ultimately show ?thesis by blast
qed

lemma stats_at_level_mono:
  assumes "L1 \<le> L2"
  shows "\<exists>s1 s2. calculate_stats_at_level c L1 = Inr s1 \<and>
           calculate_stats_at_level c L2 = Inr s2 \<and>
           lv_armor s1 \<le> lv_armor s2 \<and> lv_mr s1 \<le> lv_mr s2 \<and> lv_max_hp s1 \<le> lv_max_hp s2"
proof -
  obtain k s where s: "get_champion_stats c = Inr s" and mem: "(k, s) \<in> set CHAMPION_STATS"
    using get_champion_stats_in_table by blast
  from mem per_level_nonneg
  have nn: "0 \<le> armor_per_level s" "0 \<le> mr_per_level s" "0 \<le> hp_per_level s"
    by blast+
  have le: "(of_int (max 1 (min 18 L1) - 1) :: real) \<le> of_int (max 1 (min 18 L2) - 1)"
    using assms by simp
  show ?thesis
    using s nn le by (simp add: calculate_stats_at_level_def Let_def mult_left_mono)
qed

lemma darius_entry: "(''darius'', mk_stats 39 4.0 32 2.05 650 114) \<in> set CHAMPION_STATS"
  by (simp add: CHAMPION_STATS_def)

text \<open>
  Claim C8. Every key of \<open>CHAMPION_STATS\<close>, \<open>_default\<close> included, resolves to its own
  entry, and every per-level delta of the table is non-negative. A level is clamped
  into 1 to 18. For every champion name and all levels \<open>L1 \<le> L2\<close> (so in particular
  within 1 to 18), armor, MR and max HP at \<open>L1\<close> are at most those at \<open>L2\<close>.
\<close>

theorem stats_monotone_in_level:
  "(\<forall>(k, s) \<in> set CHAMPION_STATS.
      get_champion_stats k = Inr s \<and>
      0 \<le> armor_per_level s \<and> 0 \<le> mr_per_level s \<and> 0 \<le> hp_per_level s) \<and>
   calculate_stats_at_level c L = calculate_stats_at_level c (max 1 (min 18 L)) \<and>
   (L1 \<le> L2 \<longrightarrow>
      (\<exists>s1 s2. calculate_stats_at_level c L1 = Inr s1 \<and>
         calculate_stats_at_level c L2 = Inr s2 \<and>
         lv_armor s1 \<le> lv_armor s2 \<and> lv_mr s1 \<le> lv_mr s2 \<and> lv_max_hp s1 \<le> lv_max_hp s2))"
proof (intro conjI impI)
  show "\<forall>(k, s) \<in> set CHAMPION_STATS.
      get_champion_stats k = Inr s \<and>
      0 \<le> armor_per_level s \<and> 0 \<le> mr_per_level s \<and> 0 \<le> hp_per_level s"
    using per_level_nonneg get_champion_stats_key by blast
next
  show "calculate_stats_at_level c L = calculate_stats_at_level c (max 1 (min 18 L))"
    by (simp add: calculate_stats_at_level_def Let_def split: sum.splits)
next
  assume "L1 \<le> L2"
  then show "\<exists>s1 s2. calculate_stats_at_level c L1 = Inr s1 \<and>
         calculate_stats_at_level c L2 = Inr s2 \<and>
         lv_armor s1 \<le> lv_armor s2 \<and> lv_mr s1 \<le> lv_mr s2 \<and> lv_max_hp s1 \<le> lv_max_hp s2"
    by (rule stats_at_level_mono)
qed

theorem stats_monotone_in_level_witness:
  "(3::int) \<le> 12 \<and>
   (''darius'', mk_stats 39 4.0 32 2.05 650 114) \<in> set CHAMPION_STATS \<and>
   get_champion_stats ''darius'' = Inr (mk_stats 39 4.0 32 2.05 650 114) \<and>
   calculate_stats_at_level ''darius'' 3 = Inr \<lparr>lv_armor = 47, lv_mr = 36.1, lv_max_hp = 878\<rparr> \<and>
   calculate_stats_at_level ''darius'' 12 = Inr \<lparr>lv_armor = 83, lv_mr = 54.55, lv_max_hp = 1904\<rparr> \<and>
   calculate_stats_at_level ''darius'' 40 = calculate_stats_at_level ''darius'' 18"
proof -
  have g: "get_champion_stats ''darius'' = Inr (mk_stats 39 4.0 32 2.05 650 114)"
    using stats_monotone_in_level [of "''darius''" 40 3 12] darius_entry by blast
  have "calculate_stats_at_level ''darius'' 40 = calculate_stats_at_level ''darius'' 18"
    using stats_monotone_in_level [of "''darius''" 40 3 12] by simp
  then show ?thesis
    using g darius_entry by (simp add: calculate_stats_at_level_def mk_stats_def)
qed

section \<open>Lookups of unknown names\<close>

lemma get_champion_stats_total: "\<exists>s. get_champion_stats c = Inr s"
  by (simp add: get_champion_stats_def stats_default_present)

lemma get_combo_total: "\<exists>cb. get_combo c = Inr cb"
  by (simp add: get_combo_def combos_default_present)

lemma build_enemy_stats_total: "\<exists>es. build_enemy_stats en hp = Inr es"
proof -
  obtain s where
    "get_champion_stats (case en_champion en of Some c \<Rightarrow> c | None \<Rightarrow> ''_default'') = Inr s"
    using get_champion_stats_total by blast
  then show ?thesis
    by (simp add: build_enemy_stats_def calculate_stats_at_level_def Let_def)
qed

lemma deaths_dance_known: "map_of ITEM_STATS ''deaths_dance'' \<noteq> None"
  by (simp add: ITEM_STATS_def)

lemma unknown_item_step:
  assumes "map_of ITEM_STATS (normalize_item_key i) = None"
  shows "item_step a i = a"
proof -
  have "normalize_item_key i \<noteq> ''deaths_dance''"
    using assms deaths_dance_known by auto
  then show ?thesis
    using assms by (simp add: item_step_def no_item_def get0_def)
qed

lemma teemo_key: "champion_key ''Teemo'' = ''teemo''"
  by (simp add: champion_key_def lower_def lower_char_def remove_char_def apostrophe_def)

lemma teemo_unknown:
  "map_of CHAMPION_STATS ''teemo'' = None" "map_of CHAMPION_COMBOS ''teemo'' = None"
  by (simp_all add: CHAMPION_STATS_def CHAMPION_COMBOS_def)

lemma dorans_unknown:
  "map_of ITEM_STATS (normalize_item_key (''Doran'' @ [apostrophe] @ ''s Blade'')) = None"
  by (simp add: normalize_item_key_def lower_def lower_char_def remove_char_def replace_char_def
      apostrophe_def ITEM_STATS_def)

text \<open>
  Claim C9. No lookup raises: \<open>get_champion_stats\<close>, \<open>get_combo\<close> and
  \<open>_build_enemy_stats\<close> return a value for every champion name and every list of
  item names. A champion whose key is not in \<open>CHAMPION_STATS\<close> gets the \<open>_default\<close>
  stats, one whose key is not in \<open>CHAMPION_COMBOS\<close> the \<open>_default\<close> combo, and an item
  whose key is not in \<open>ITEM_STATS\<close> has the empty entry: it adds zero armor, MR and HP
  and leaves the loop's variables as they were. The result is a function of the
  arguments alone, the tables being constants.
\<close>

theorem lookups_never_raise:
  "(\<exists>s. get_champion_stats c = Inr s) \<and>
   (\<exists>cb. get_combo c = Inr cb) \<and>
   (\<exists>es. build_enemy_stats en hp = Inr es) \<and>
   (map_of CHAMPION_STATS (champion_key c) = None \<longrightarrow>
      get_champion_stats c = Inr (mk_stats 28 4.0 32 1.5 580 95) \<and>
      get_champion_stats c = get_champion_stats ''_default'') \<and>
   (map_of CHAMPION_COMBOS (champion_key c) = None \<longrightarrow>
      get_combo c = Inr \<lparr>combo_label = ''Full combo'', spell_order = ''Spell1 > Spell2 > AA'',
                         damage_components =
                           [mk_component ''Estimated combo'' [300] 2.5 ''physical'' None]\<rparr> \<and>
      get_combo c = get_combo ''_default'') \<and>
   (map_of ITEM_STATS (normalize_item_key i) = None \<longrightarrow>
      get_item_stats i = no_item \<and>
      get0 (item_armor (get_item_stats i)) = 0 \<and>
      get0 (item_mr (get_item_stats i)) = 0 \<and>
      get0 (item_hp (get_item_stats i)) = 0 \<and>
      item_step a i = a)"
proof (intro conjI impI)
  show "\<exists>s. get_champion_stats c = Inr s" by (rule get_champion_stats_total)
  show "\<exists>cb. get_combo c = Inr cb" by (rule get_combo_total)
  show "\<exists>es. build_enemy_stats en hp = Inr es" by (rule build_enemy_stats_total)
next
  assume "map_of CHAMPION_STATS (champion_key c) = None"
  then show "get_champion_stats c = Inr (mk_stats 28 4.0 32 1.5 580 95)"
    and "get_champion_stats c = get_champion_stats ''_default''"
    by (simp_all add: get_champion_stats_def stats_default_present default_key)
next
  assume "map_of CHAMPION_COMBOS (champion_key c) = None"
  then show "get_combo c = Inr \<lparr>combo_label = ''Full combo'', spell_order = ''Spell1 > Spell2 > AA'',
                         damage_components =
                           [mk_component ''Estimated combo'' [300] 2.5 ''physical'' None]\<rparr>"
    and "get_combo c = get_combo ''_default''"
    by (simp_all add: get_combo_def combos_default_present default_key)
next
  assume u: "map_of ITEM_STATS (normalize_item_key i) = None"
  then show "get_item_stats i = no_item"
    by (simp add: get_item_stats_def)
  then show "get0 (item_armor (get_item_stats i)) = 0" "get0 (item_mr (get_item_stats i)) = 0"
    "get0 (item_hp (get_item_stats i)) = 0"
    by (simp_all add: no_item_def get0_def)
  show "item_step a i = a"
    using u by (rule unknown_item_step)
qed

theorem lookups_never_raise_witness:
  "map_of CHAMPION_STATS (champion_key ''Teemo'') = None \<and>
   map_of CHAMPION_COMBOS (champion_key ''Teemo'') = None \<and>
   map_of ITEM_STATS (normalize_item_key (''Doran'' @ [apostrophe] @ ''s Blade'')) = None \<and>
   get_champion_stats ''Teemo'' = Inr (mk_stats 28 4.0 32 1.5 580 95) \<and>
   get_combo ''Teemo'' = get_combo ''_default'' \<and>
   get_item_stats (''Doran'' @ [apostrophe] @ ''s Blade'') = no_item"
proof -
  have s: "map_of CHAMPION_STATS (champion_key ''Teemo'') = None"
    and c: "map_of CHAMPION_COMBOS (champion_key ''Teemo'') = None"
    by (simp_all only: teemo_key teemo_unknown)
  note i = dorans_unknown
  from lookups_never_raise [of "''Teemo''" demo_enemy None "''Doran'' @ [apostrophe] @ ''s Blade''"]
    s c i
  show ?thesis by blast
qed

section \<open>The demo call, end to end\<close>

lemma demo_item_effects: "item_effects demo_stats = (4052 / 5, [], 0)"
  by (simp add: item_effects_def demo_stats_def)

lemma barrier_step:
  "summoner_step (hp, md, ws, pen) ''SummonerBarrier'' =
     (hp * (5 / 4), md, ws @ [HpModWarning ''Barrier'' (5 / 4)], pen + 2 / 25)"
  by (simp add: summoner_step_def SUMMONER_ADJUSTMENTS_def)

lemma flash_step: "summoner_step acc ''SummonerFlash'' = acc"
  by (simp add: summoner_step_def SUMMONER_ADJUSTMENTS_def)

lemma demo_summoners:
  "summoner_effects demo_enemy (4052 / 5) 0 = (1013, 1, [HpModWarning ''Barrier'' (5 / 4)], 2 / 25)"
  by (simp add: summoner_effects_def demo_enemy_def barrier_step flash_step)

lemma thornmail_cd: "cd_step acc ''Thornmail'' = acc"
  by (simp add: cd_step_def normalize_item_key_def lower_def lower_char_def remove_char_def
      replace_char_def apostrophe_def ITEM_CD_FLAGS_def)

lemma demo_cd: "cd_flags demo_enemy fl pen = (fl, pen)"
  by (simp add: cd_flags_def demo_enemy_def thornmail_cd)

lemma demo_evaluation_eq: "evaluation_of demo_my demo_enemy demo_stats 943 0 = demo_evaluation"
proof -
  have a: "calc_effective_armor (armor demo_stats) demo_my = 1139 / 9"
    by (simp add: demo_stats_def demo_eff_armor)
  have m: "max 0 (mr demo_stats - get0 (ms_magic_pen_flat demo_my)) = 1009 / 20"
    by (simp add: demo_stats_def demo_my_def get0_def)
  show ?thesis
    unfolding evaluation_of_def Let_def a m demo_active demo_item_effects demo_summoners demo_cd
    by (simp add: demo_evaluation_def dmg_reduction_def mr_reduction_def demo_active
        demo_item_effects demo_summoners demo_cd)
qed

lemma demo_rounding:
  "py_round 943 1 = 943" "py_round (983700 / 2039) 1 = 2412 / 5"
  "py_round (135000 / 2039) 1 = 331 / 5" "py_round (4052 / 5) 1 = 4052 / 5"
  "py_round (983700 / 2065507) 3 = 119 / 250" "py_round (20461486 / 51637675) 3 = 99 / 250"
  by (simp_all add: py_round_def round_half_even_def Let_def)

lemma demo_result_eq:
  "calculate_kill_chance demo_my demo_enemy (Some (2 / 5)) None 0 600 = Inr demo_result"
proof -
  have h: "my_hp_of None demo_my = 4 / 5"
    by (simp add: my_hp_of_def demo_my_def)
  have n: "(case en_champion demo_enemy of Some c \<Rightarrow> c | None \<Rightarrow> ''Unknown'') = ''Darius''"
    "(case ms_champion demo_my of Some c \<Rightarrow> c | None \<Rightarrow> ''Unknown'') = khazix_name"
    "(case ms_champion demo_my of Some c \<Rightarrow> c | None \<Rightarrow> ''_default'') = khazix_name"
    "(case en_is_dead demo_enemy of Some d \<Rightarrow> d | None \<Rightarrow> False) = False"
    by (simp_all add: demo_enemy_def demo_my_def)
  show ?thesis
    unfolding calculate_kill_chance_def h n demo_evaluate demo_evaluation_eq khazix_combo
    by (simp add: MIN_MY_HP_TO_ENGAGE_def demo_evaluation_def demo_stats_def demo_rounding
        verdict_of_def THRESHOLD_GO_def THRESHOLD_RISKY_def new_result_def demo_result_def
        del: One_nat_def)
qed

section \<open>Observed max HP\<close>

text \<open>
  Claim C1, at a failing input. The target holds Thornmail (350 HP in \<open>ITEM_STATS\<close>)
  and the target panel reads a max HP of 2000. The override is applied before the
  item loop, which then adds the item's HP to it: \<open>max_hp\<close> is 2350, not the observed
  2000. Armor and MR are the computed ones.
\<close>

theorem observed_max_hp_plus_item_hp:
  "en_hp_max_real c1_enemy = Some 2000 \<and>
   build_enemy_stats c1_enemy None =
     Inr \<lparr>armor = 135, mr = 1009 / 20, max_hp = 2350, current_hp = 2350, hp_percent = 1,
          item_shields = [], item_revive = False, death_dance_flag = False\<rparr>"
  by (simp add: build_enemy_stats_def c1_enemy_def darius_level_10 thornmail_step)

section \<open>Shield items\<close>

lemma sterak_step:
  "item_step a ''Sterak Gage'' =
     a\<lparr>acc_max_hp := acc_max_hp a + 400,
       acc_shields := acc_shields a @ [(''Sterak Gage'', Num (1 / 5))]\<rparr>"
  by (simp add: item_step_def normalize_item_key_def lower_def lower_char_def remove_char_def
      replace_char_def ITEM_STATS_def no_item_def get0_def apostrophe_def)

lemma c2_build: "build_enemy_stats c2_enemy None = Inr c2_stats"
  by (simp add: build_enemy_stats_def c2_enemy_def c2_stats_def darius_level_10 sterak_step)

lemma c2_item_effects:
  "item_effects c2_stats = (10381 / 5, [FlatShieldFlag ''Sterak Gage'' (1 / 5)], 2 / 25)"
  by (simp add: item_effects_def c2_stats_def shield_step_def)

text \<open>
  The sibling path: the \<open>active_shield\<close> fraction of \<open>gargoyle_stoneplate\<close> is
  turned into text when it is collected, and the shield loop adds a number to the
  effective HP but only flags a text.
\<close>

lemma gargoyle_step:
  "item_step a ''Gargoyle Stoneplate'' =
     a\<lparr>acc_armor := acc_armor a + 60, acc_mr := acc_mr a + 60,
       acc_max_hp := acc_max_hp a + 150,
       acc_shields := acc_shields a @ [(''Gargoyle Stoneplate'', Str ''+40% maxHP'')]\<rparr>"
  by (simp add: item_step_def normalize_item_key_def lower_def lower_char_def remove_char_def
      replace_char_def ITEM_STATS_def no_item_def get0_def apostrophe_def py_int_def show_int_def
      show_nat.simps)

lemma shield_step_cases:
  "shield_step (hp, fl, pen) (n, Str t) = (hp, fl @ [TextShieldFlag n t], pen + 2 / 25)"
  "shield_step (hp, fl, pen) (n, Num v) = (hp + v, fl @ [FlatShieldFlag n v], pen + 2 / 25)"
  by (simp_all add: shield_step_def)

text \<open>
  Claim C2, at a failing input. The \<open>passive_shield\<close> of \<open>sterak_gage\<close> is the
  fraction 0.20 of max HP; being a number, it is added to the effective HP as a flat
  0.2, and flagged as a flat shield.
\<close>

theorem percent_passive_shield_added_flat:
  "map_of ITEM_STATS ''sterak_gage'' =
     Some (no_item\<lparr>item_hp := Some 400, passive_shield := Some (Num 0.20)\<rparr>) \<and>
   build_enemy_stats c2_enemy None = Inr c2_stats \<and>
   current_hp c2_stats = 2076 \<and>
   item_shields c2_stats = [(''Sterak Gage'', Num (1 / 5))] \<and>
   item_effects c2_stats = (2076 + 1 / 5, [FlatShieldFlag ''Sterak Gage'' (1 / 5)], 2 / 25)"
  using c2_build c2_item_effects by (simp add: c2_stats_def ITEM_STATS_def)

section \<open>Reported effective HP\<close>

text \<open>
  Claim C5, at a failing input. The target holds Barrier. \<open>enemy_effective_hp\<close> is
  assigned before the summoner loop, so the result reports 810.4, while the kill ratio
  divides by the effective HP after the multiplier, 1013.
\<close>

theorem reported_effective_hp_before_summoners:
  "calculate_kill_chance demo_my demo_enemy (Some (2 / 5)) None 0 600 = Inr demo_result \<and>
   evaluate demo_my demo_enemy (Some (2 / 5)) = Inr demo_evaluation \<and>
   en_summoners demo_enemy = Some [''SummonerBarrier'', ''SummonerFlash''] \<and>
   enemy_effective_hp demo_result = 4052 / 5 \<and>
   effective_hp demo_evaluation = 1013 \<and>
   ev_kill_ratio demo_evaluation = adjusted_dealt demo_evaluation / max 1013 1"
  using demo_result_eq demo_evaluate demo_evaluation_eq
  by (simp add: demo_result_def demo_evaluation_def demo_enemy_def)

section \<open>The auto-pause gate\<close>

lemma gate_not_paused:
  assumes "calculate_kill_chance my en ehp mhp allies gt = Inr r"
    and "\<not> (0 < gt \<and> gt < 10)" and "\<not> my_hp_of mhp my < MIN_MY_HP_TO_ENGAGE"
    and "en_is_dead en \<noteq> Some True" and "\<not> 2700 < gt"
  shows "\<not> paused r \<and> pause_reason r = NotPaused"
proof -
  have d: "(case en_is_dead en of Some d \<Rightarrow> d | None \<Rightarrow> False) = False"
    using assms(4) by (cases "en_is_dead en") auto
  show ?thesis
    using assms(1,2,3,5) unfolding calculate_kill_chance_def Let_def d
    by (auto simp: new_result_def split: sum.splits)
qed

text \<open>
  Claim C3, amended. The gate returns before any stat or damage is computed, with the
  first reason that matches in the order: match time in (0, 10), attacker HP fraction
  below 0.35, target dead, match time above 2700; otherwise the call is not paused.
  So when the match time is not in (0, 10), an attacker HP fraction below 0.35 gives
  the attacker-HP reason whether or not the target is dead. The attacker HP fraction
  is \<open>my_hp_percent or my_state.get("hp_percent", 1.0)\<close>.
\<close>

theorem auto_pause_gate_order:
  "(0 < gt \<and> gt < 10 \<longrightarrow>
      calculate_kill_chance my en ehp mhp allies gt = Inr (paused_result my en PreGame)) \<and>
   (\<not> (0 < gt \<and> gt < 10) \<and> my_hp_of mhp my < 0.35 \<longrightarrow>
      calculate_kill_chance my en ehp mhp allies gt =
        Inr (paused_result my en (HpTooLow (my_hp_of mhp my)))) \<and>
   (\<not> (0 < gt \<and> gt < 10) \<and> \<not> my_hp_of mhp my < 0.35 \<and> en_is_dead en = Some True \<longrightarrow>
      calculate_kill_chance my en ehp mhp allies gt = Inr (paused_result my en EnemyDead)) \<and>
   (\<not> (0 < gt \<and> gt < 10) \<and> \<not> my_hp_of mhp my < 0.35 \<and> en_is_dead en \<noteq> Some True \<and>
    2700 < gt \<longrightarrow>
      calculate_kill_chance my en ehp mhp allies gt = Inr (paused_result my en LateGame)) \<and>
   (\<not> (0 < gt \<and> gt < 10) \<and> \<not> my_hp_of mhp my < 0.35 \<and> en_is_dead en \<noteq> Some True \<and>
    \<not> 2700 < gt \<longrightarrow>
      (\<forall>r. calculate_kill_chance my en ehp mhp allies gt = Inr r \<longrightarrow>
         \<not> paused r \<and> pause_reason r = NotPaused))"
proof (intro conjI impI allI)
  assume "0 < gt \<and> gt < 10"
  then show "calculate_kill_chance my en ehp mhp allies gt = Inr (paused_result my en PreGame)"
    by (simp add: calculate_kill_chance_def paused_result_def Let_def)
next
  assume "\<not> (0 < gt \<and> gt < 10) \<and> my_hp_of mhp my < 0.35"
  then show "calculate_kill_chance my en ehp mhp allies gt =
        Inr (paused_result my en (HpTooLow (my_hp_of mhp my)))"
    by (auto simp: calculate_kill_chance_def paused_result_def Let_def MIN_MY_HP_TO_ENGAGE_def)
next
  assume "\<not> (0 < gt \<and> gt < 10) \<and> \<not> my_hp_of mhp my < 0.35 \<and> en_is_dead en = Some True"
  then show "calculate_kill_chance my en ehp mhp allies gt = Inr (paused_result my en EnemyDead)"
    by (auto simp: calculate_kill_chance_def paused_result_def Let_def MIN_MY_HP_TO_ENGAGE_def)
next
  assume a: "\<not> (0 < gt \<and> gt < 10) \<and> \<not> my_hp_of mhp my < 0.35 \<and> en_is_dead en \<noteq> Some True \<and>
    2700 < gt"
  then have "(case en_is_dead en of Some d \<Rightarrow> d | None \<Rightarrow> False) = False"
    by (cases "en_is_dead en") auto
  then show "calculate_kill_chance my en ehp mhp allies gt = Inr (paused_result my en LateGame)"
    using a by (auto simp: calculate_kill_chance_def paused_result_def Let_def MIN_MY_HP_TO_ENGAGE_def)
next
  fix r
  assume "\<not> (0 < gt \<and> gt < 10) \<and> \<not> my_hp_of mhp my < 0.35 \<and> en_is_dead en \<noteq> Some True \<and>
    \<not> 2700 < gt"
    and "calculate_kill_chance my en ehp mhp allies gt = Inr r"
  then show "\<not> paused r" and "pause_reason r = NotPaused"
    using gate_not_paused [of my en ehp mhp allies gt r] 
    by (simp_all add: MIN_MY_HP_TO_ENGAGE_def)
qed

lemma demo_my_hp:
  "my_hp_of (Some (1 / 5)) demo_my = 1 / 5" "my_hp_of None demo_my = 4 / 5"
  by (simp_all add: my_hp_of_def demo_my_def)

lemma dead_flags: "en_is_dead dead_enemy = Some True" "en_is_dead demo_enemy = Some False"
  by (simp_all add: dead_enemy_def demo_enemy_def)

text \<open>
  Claim C3 as stated fails five seconds into the match: the attacker is at 20% HP and
  the target is dead, yet the reason is the pre-game one.
\<close>

theorem pre_game_precedes_low_hp:
  "my_hp_of (Some (1 / 5)) demo_my < 0.35 \<and>
   en_is_dead dead_enemy = Some True \<and>
   calculate_kill_chance demo_my dead_enemy None (Some (1 / 5)) 0 5 =
     Inr (paused_result demo_my dead_enemy PreGame) \<and>
   pause_reason (paused_result demo_my dead_enemy PreGame) \<noteq> HpTooLow (1 / 5)"
  by (simp add: demo_my_hp dead_flags calculate_kill_chance_def paused_result_def Let_def)

theorem auto_pause_gate_order_witness:
  "calculate_kill_chance demo_my dead_enemy None (Some (1 / 5)) 0 5 =
     Inr (paused_result demo_my dead_enemy PreGame) \<and>
   calculate_kill_chance demo_my dead_enemy None (Some (1 / 5)) 0 600 =
     Inr (paused_result demo_my dead_enemy (HpTooLow (1 / 5))) \<and>
   calculate_kill_chance demo_my dead_enemy None None 0 600 =
     Inr (paused_result demo_my dead_enemy EnemyDead) \<and>
   calculate_kill_chance demo_my demo_enemy None None 0 3000 =
     Inr (paused_result demo_my demo_enemy LateGame) \<and>
   calculate_kill_chance demo_my demo_enemy (Some (2 / 5)) None 0 600 = Inr demo_result \<and>
   \<not> paused demo_result"
proof -
  have 1: "calculate_kill_chance demo_my dead_enemy None (Some (1 / 5)) 0 5 =
     Inr (paused_result demo_my dead_enemy PreGame)"
    using auto_pause_gate_order [where gt = 5 and my = demo_my and en = dead_enemy and ehp = None
        and mhp = "Some (1 / 5)" and allies = 0] by simp
  have 2: "calculate_kill_chance demo_my dead_enemy None (Some (1 / 5)) 0 600 =
     Inr (paused_result demo_my dead_enemy (HpTooLow (1 / 5)))"
    using auto_pause_gate_order [where gt = 600 and my = demo_my and en = dead_enemy and ehp = None
        and mhp = "Some (1 / 5)" and allies = 0] by (simp add: demo_my_hp)
  have 3: "calculate_kill_chance demo_my dead_enemy None None 0 600 =
     Inr (paused_result demo_my dead_enemy EnemyDead)"
    using auto_pause_gate_order [where gt = 600 and my = demo_my and en = dead_enemy and ehp = None
        and mhp = None and allies = 0] by (simp add: demo_my_hp dead_flags)
  have 4: "calculate_kill_chance demo_my demo_enemy None None 0 3000 =
     Inr (paused_result demo_my demo_enemy LateGame)"
    using auto_pause_gate_order [where gt = 3000 and my = demo_my and en = demo_enemy and ehp = None
        and mhp = None and allies = 0] by (simp add: demo_my_hp dead_flags)
  have 5: "\<not> paused demo_result"
    using auto_pause_gate_order [where gt = 600 and my = demo_my and en = demo_enemy and ehp = "Some (2 / 5)"
        and mhp = None and allies = 0] demo_result_eq
    by (simp add: demo_my_hp dead_flags)
  show ?thesis using 1 2 3 4 5 demo_result_eq by blast
qed

section \<open>Confidence and penalty bounds\<close>

subsection \<open>The penalty is the sum of its sources\<close>















subsection \<open>Non-negative damage\<close>























subsection \<open>Rounding keeps the bounds\<close>





subsection \<open>Concrete calls\<close>















end
